theory Spec2Isabelle
  imports Complex_Main "HOL-Library.Sublist"
begin

section \<open>JavaScript values\<close>

text \<open>
  The listing browser is TypeScript, but every document it handles is typed \<^verbatim>\<open>any\<close>
  (\<^verbatim>\<open>Document\<close> on the server, \<^verbatim>\<open>doc: any\<close> on the client), so the embedding works on
  run-time values.  A number is an IEEE double: the program only compares numbers and
  tests them for truthiness, so a finite double is represented by the rational it denotes.
  A string is a list of characters (standing for the code units of the JavaScript string).
  An object is the list of its own properties; a property that is absent and a property
  whose value is \<^verbatim>\<open>undefined\<close> read the same.
\<close>

datatype jsnum = Fin rat | NaN | PosInf | NegInf

datatype jsval =
    Undefined
  | Null
  | Bool bool
  | Num jsnum
  | Str string
  | Arr "jsval list"
  | Obj "(string \<times> jsval) list"

text \<open>
  What a \<^verbatim>\<open>catch (error)\<close> clause can receive: an instance of \<^verbatim>\<open>Error\<close> (of any
  subclass, \<^verbatim>\<open>TypeError\<close> included) carrying its message, or a value that is not an
  \<^verbatim>\<open>Error\<close>.
\<close>

datatype thrown = Error string | NonError

text \<open>
  The built-in functions the client calls, taken as given: \<^verbatim>\<open>parseFloat\<close> and
  \<^verbatim>\<open>Number.parseInt\<close> (with the conversion of their argument to a string),
  \<^verbatim>\<open>String.prototype.toLowerCase\<close>, the decimal rendering of a status code, the text of
  a response body, and the message the engine gives a \<^verbatim>\<open>TypeError\<close> that it raises on
  the named property or method.
\<close>

record builtins =
  parseFloat :: "jsval \<Rightarrow> jsnum"
  parseInt :: "jsval \<Rightarrow> jsnum"
  toLowerCase :: "string \<Rightarrow> string"
  statusText :: "nat \<Rightarrow> string"
  bodyText :: "jsval \<Rightarrow> string"
  typeErrorMessage :: "string \<Rightarrow> string"

text \<open>\<^verbatim>\<open>if (v)\<close>, \<^verbatim>\<open>!v\<close>, \<^verbatim>\<open>v || d\<close>, \<^verbatim>\<open>v ? a : b\<close> all test truthiness.\<close>

fun truthy :: "jsval \<Rightarrow> bool" where
  "truthy Undefined = False"
| "truthy Null = False"
| "truthy (Bool b) = b"
| "truthy (Num n) = (n \<noteq> Fin 0 \<and> n \<noteq> NaN)"
| "truthy (Str s) = (s \<noteq> [])"
| "truthy (Arr vs) = True"
| "truthy (Obj kvs) = True"

definition orElse :: "jsval \<Rightarrow> jsval \<Rightarrow> jsval" where
  "orElse v d = (if truthy v then v else d)"

definition lookup :: "(string \<times> jsval) list \<Rightarrow> string \<Rightarrow> jsval" where
  "lookup kvs k = (case map_of kvs k of None \<Rightarrow> Undefined | Some v \<Rightarrow> v)"

text \<open>
  \<^verbatim>\<open>v.k\<close> and \<^verbatim>\<open>v["k"]\<close> for the property names the program uses, none of which is
  a member of a built-in prototype: reading a property of \<^verbatim>\<open>undefined\<close> or \<^verbatim>\<open>null\<close>
  throws, an object yields its own property, any other value yields \<^verbatim>\<open>undefined\<close>.
\<close>

fun getProp :: "builtins \<Rightarrow> jsval \<Rightarrow> string \<Rightarrow> thrown + jsval" where
  "getProp b Undefined k = Inl (Error (typeErrorMessage b k))"
| "getProp b Null k = Inl (Error (typeErrorMessage b k))"
| "getProp b (Obj kvs) k = Inr (lookup kvs k)"
| "getProp b v k = Inr Undefined"

text \<open>\<^verbatim>\<open>v?.k\<close>: \<^verbatim>\<open>undefined\<close> when \<^verbatim>\<open>v\<close> is \<^verbatim>\<open>undefined\<close> or \<^verbatim>\<open>null\<close>.\<close>

fun optProp :: "jsval \<Rightarrow> string \<Rightarrow> jsval" where
  "optProp (Obj kvs) k = lookup kvs k"
| "optProp v k = Undefined"

text \<open>\<^verbatim>\<open>v?.[0]\<close>: the first element of an array, the first code unit of a string,
  the property \<^verbatim>\<open>"0"\<close> of an object.\<close>

fun optIndex0 :: "jsval \<Rightarrow> jsval" where
  "optIndex0 (Arr vs) = (case vs of [] \<Rightarrow> Undefined | v # _ \<Rightarrow> v)"
| "optIndex0 (Str s) = (case s of [] \<Rightarrow> Undefined | c # _ \<Rightarrow> Str [c])"
| "optIndex0 (Obj kvs) = lookup kvs ''0''"
| "optIndex0 v = Undefined"

text \<open>\<^verbatim>\<open>xs.map(f)\<close> with a callback that may throw: the first exception ends the
  traversal.\<close>

fun mapE :: "('a \<Rightarrow> thrown + 'b) \<Rightarrow> 'a list \<Rightarrow> thrown + 'b list" where
  "mapE f [] = Inr []"
| "mapE f (x # xs) =
     (case f x of
        Inl e \<Rightarrow> Inl e
      | Inr y \<Rightarrow> (case mapE f xs of Inl e \<Rightarrow> Inl e | Inr ys \<Rightarrow> Inr (y # ys)))"

section \<open>The fetch endpoint\<close>

text \<open>
  A stored document as the driver returns it: its \<^verbatim>\<open>_id\<close> and the other fields, untyped.
  The driver's type \<^verbatim>\<open>WithId<Document>\<close> declares the \<^verbatim>\<open>_id\<close> an \<^verbatim>\<open>ObjectId\<close>, but the
  database accepts other values as \<^verbatim>\<open>_id\<close> (a string, a number) and the driver returns
  them as they are.  An \<^verbatim>\<open>ObjectId\<close> is given by its hexadecimal string.
\<close>

datatype bson_id = ObjectId string | OtherId jsval

record rawdoc =
  raw_id :: bson_id
  props :: "(string \<times> jsval) list"

text \<open>
  The environment of one invocation of the handler: what the driver does when asked, and
  the message the server's engine gives a \<^verbatim>\<open>TypeError\<close> that it raises on the named
  method.  \<^verbatim>\<open>new MongoClient(uri)\<close> may throw on a connection string it cannot parse,
  \<^verbatim>\<open>client.connect()\<close> and the query may fail, and otherwise
  \<^verbatim>\<open>find({}).limit(n).toArray()\<close> yields the first \<open>n\<close> documents of the collection.
\<close>

record world =
  newClient :: "string \<Rightarrow> thrown option"
  connectFails :: "thrown option"
  queryFails :: "thrown option"
  database :: "string \<Rightarrow> string \<Rightarrow> rawdoc list"
  serverTypeError :: "string \<Rightarrow> string"

record response =
  status :: nat
  body :: jsval

definition find_limit_toArray :: "world \<Rightarrow> string \<Rightarrow> string \<Rightarrow> nat \<Rightarrow> thrown + rawdoc list" where
  "find_limit_toArray w db coll n =
     (case queryFails w of
        Some e \<Rightarrow> Inl e
      | None \<Rightarrow> Inr (take n (database w db coll)))"

text \<open>The \<^verbatim>\<open>catch\<close> clause shared by both handlers.\<close>

definition catch_response :: "thrown \<Rightarrow> response" where
  "catch_response e =
     \<lparr>status = 500,
      body = Obj [(''error'',
        Str (case e of Error m \<Rightarrow> m | NonError \<Rightarrow> ''Failed to fetch properties''))]\<rparr>"


subsection \<open>Variant A: database \<^verbatim>\<open>proptrust\<close>, collection \<^verbatim>\<open>listings\<close>\<close>

text \<open>
  A client handle is represented by the connection string it was built from; the
  module-level \<^verbatim>\<open>cachedClient\<close> is the state threaded through the handler.
  \<^verbatim>\<open>process.env.MONGODB_URI\<close> is a string or \<^verbatim>\<open>undefined\<close>; variant A appends
  \<^verbatim>\<open>"&ssl=false"\<close> to it, and string concatenation renders \<^verbatim>\<open>undefined\<close> as the text
  \<^verbatim>\<open>undefined\<close>.
\<close>

type_synonym MongoClient = string

definition uri_A :: "string option \<Rightarrow> string" where
  "uri_A env = (case env of None \<Rightarrow> ''undefined'' | Some s \<Rightarrow> s) @ ''&ssl=false''"

definition getMongoClient_A ::
  "world \<Rightarrow> string option \<Rightarrow> MongoClient option \<Rightarrow> (thrown + MongoClient) \<times> MongoClient option" where
  "getMongoClient_A w env cachedClient =
     (case cachedClient of
        Some c \<Rightarrow> (Inr c, cachedClient)
      | None \<Rightarrow>
          if uri_A env = [] then
            (Inl (Error ''MONGODB_URI environment variable not configured''), cachedClient)
          else
            (case newClient w (uri_A env) of
               Some e \<Rightarrow> (Inl e, cachedClient)
             | None \<Rightarrow> (Inr (uri_A env), Some (uri_A env))))"

text \<open>\<^verbatim>\<open>property._id.toHexString()\<close>: only an \<^verbatim>\<open>ObjectId\<close> has the method.\<close>

definition toHexString :: "world \<Rightarrow> bson_id \<Rightarrow> thrown + string" where
  "toHexString w i =
     (case i of
        ObjectId hex \<Rightarrow> Inr hex
      | OtherId v \<Rightarrow> Inl (Error (serverTypeError w ''toHexString'')))"

text \<open>The callback of \<^verbatim>\<open>properties.map\<close>.  The call of \<^verbatim>\<open>toHexString\<close> comes first
  in the object literal and is the only step that can throw.\<close>

definition formatProperty :: "world \<Rightarrow> rawdoc \<Rightarrow> thrown + jsval" where
  "formatProperty w property =
     (case toHexString w (raw_id property) of
        Inl e \<Rightarrow> Inl e
      | Inr hex \<Rightarrow> Inr (Obj [
       (''_id'', Obj [(''$oid'', Str hex)]),
       (''title'', lookup (props property) ''title''),
       (''author_id'', lookup (props property) ''author_id''),
       (''meta_description'', lookup (props property) ''meta_description''),
       (''project_description'', lookup (props property) ''project_description''),
       (''fields'', Obj [
          (''price_sqft'', lookup (props property) ''price_sqft''),
          (''latitude'', lookup (props property) ''latitude''),
          (''longitude'', lookup (props property) ''longitude''),
          (''address'', lookup (props property) ''address''),
          (''project_highlights'', lookup (props property) ''project_highlights''),
          (''rera_url'', lookup (props property) ''rera_url''),
          (''rera_id'', lookup (props property) ''rera_id''),
          (''about_project'', lookup (props property) ''about_project''),
          (''nearest_school'', lookup (props property) ''nearest_school''),
          (''nearest_bank'', lookup (props property) ''nearest_bank''),
          (''nearest_hospital'', lookup (props property) ''nearest_hospital''),
          (''starting_bsp'', lookup (props property) ''starting_bsp''),
          (''project_detail'', lookup (props property) ''project_detail''),
          (''listing_url'', lookup (props property) ''listing_url''),
          (''photo_url'', lookup (props property) ''photo_url''),
          (''amenities'', orElse (lookup (props property) ''amenities'') (Arr []))]),
       (''taxonomies'', Obj [
          (''at_biz_dir-category'', orElse (lookup (props property) ''at_biz_dir-category'') (Arr [])),
          (''at_biz_dir-location'', orElse (lookup (props property) ''at_biz_dir-location'') (Arr [])),
          (''at_biz_dir-tags'', orElse (lookup (props property) ''at_biz_dir-tags'') (Arr []))]),
       (''scraped_at'', lookup (props property) ''scraped_at'')]))"

text \<open>The handler takes the request and never reads it.\<close>

definition GET_A ::
  "world \<Rightarrow> string option \<Rightarrow> MongoClient option \<Rightarrow> 'req \<Rightarrow> response \<times> MongoClient option" where
  "GET_A w env cachedClient request =
     (case getMongoClient_A w env cachedClient of
        (Inl e, cached') \<Rightarrow> (catch_response e, cached')
      | (Inr client, cached') \<Rightarrow>
          (case connectFails w of
             Some e \<Rightarrow> (catch_response e, cached')
           | None \<Rightarrow>
               (case find_limit_toArray w ''proptrust'' ''listings'' 500 of
                  Inl e \<Rightarrow> (catch_response e, cached')
                | Inr properties \<Rightarrow>
                    (case mapE (formatProperty w) properties of
                       Inl e \<Rightarrow> (catch_response e, cached')
                     | Inr formattedProperties \<Rightarrow>
                         (\<lparr>status = 200,
                           body = Obj [(''documents'', Arr formattedProperties)]\<rparr>,
                          cached')))))"

subsection \<open>Variant B: database \<^verbatim>\<open>ccube_research\<close>, collection \<^verbatim>\<open>apartment\<close>\<close>

text \<open>Here \<^verbatim>\<open>uri\<close> is the environment variable itself, so it may be \<^verbatim>\<open>undefined\<close>.\<close>

definition getMongoClient_B ::
  "world \<Rightarrow> string option \<Rightarrow> MongoClient option \<Rightarrow> (thrown + MongoClient) \<times> MongoClient option" where
  "getMongoClient_B w env cachedClient =
     (case cachedClient of
        Some c \<Rightarrow> (Inr c, cachedClient)
      | None \<Rightarrow>
          (case env of
             None \<Rightarrow> (Inl (Error ''MONGODB_URI environment variable not configured''), cachedClient)
           | Some uri \<Rightarrow>
               if uri = [] then
                 (Inl (Error ''MONGODB_URI environment variable not configured''), cachedClient)
               else
                 (case newClient w uri of
                    Some e \<Rightarrow> (Inl e, cachedClient)
                  | None \<Rightarrow> (Inr uri, Some uri))))"

text \<open>
  Variant B puts the documents in the body as the driver returned them; serialised, an
  \<^verbatim>\<open>ObjectId\<close> is its hexadecimal string and any other \<^verbatim>\<open>_id\<close> is itself.
\<close>

definition docValue :: "rawdoc \<Rightarrow> jsval" where
  "docValue d =
     Obj ((''_id'', (case raw_id d of ObjectId hex \<Rightarrow> Str hex | OtherId v \<Rightarrow> v)) # props d)"

definition GET_B ::
  "world \<Rightarrow> string option \<Rightarrow> MongoClient option \<Rightarrow> 'req \<Rightarrow> response \<times> MongoClient option" where
  "GET_B w env cachedClient request =
     (case getMongoClient_B w env cachedClient of
        (Inl e, cached') \<Rightarrow> (catch_response e, cached')
      | (Inr client, cached') \<Rightarrow>
          (case connectFails w of
             Some e \<Rightarrow> (catch_response e, cached')
           | None \<Rightarrow>
               (case find_limit_toArray w ''ccube_research'' ''apartment'' 500 of
                  Inl e \<Rightarrow> (catch_response e, cached')
                | Inr properties \<Rightarrow>
                    (\<lparr>status = 200,
                      body = Obj [(''documents'', Arr (map docValue properties))]\<rparr>,
                     cached'))))"


section \<open>The listing view\<close>

subsection \<open>What the client receives\<close>

text \<open>
  \<^verbatim>\<open>NextResponse.json\<close> serialises the body and \<^verbatim>\<open>response.json()\<close> parses it again:
  a property whose value is \<^verbatim>\<open>undefined\<close> is dropped, \<^verbatim>\<open>undefined\<close> inside an array and a
  number that is not finite become \<^verbatim>\<open>null\<close>.
\<close>

fun json :: "jsval \<Rightarrow> jsval"
  and jsonProps :: "(string \<times> jsval) list \<Rightarrow> (string \<times> jsval) list"
  and jsonElems :: "jsval list \<Rightarrow> jsval list" where
  "json Undefined = Undefined"
| "json Null = Null"
| "json (Bool b) = Bool b"
| "json (Num n) = (case n of Fin q \<Rightarrow> Num (Fin q) | _ \<Rightarrow> Null)"
| "json (Str s) = Str s"
| "json (Arr vs) = Arr (jsonElems vs)"
| "json (Obj kvs) = Obj (jsonProps kvs)"
| "jsonProps [] = []"
| "jsonProps ((k, v) # kvs) =
     (if v = Undefined then jsonProps kvs else (k, json v) # jsonProps kvs)"
| "jsonElems [] = []"
| "jsonElems (v # vs) = (if v = Undefined then Null else json v) # jsonElems vs"

datatype fetch_result = Rejected thrown | Resolved response

definition ok :: "response \<Rightarrow> bool" where
  "ok r = (200 \<le> status r \<and> status r \<le> 299)"

text \<open>\<^verbatim>\<open>err instanceof Error ? err.message : "Unknown error occurred"\<close>\<close>

definition caught_message :: "thrown \<Rightarrow> string" where
  "caught_message e = (case e of Error m \<Rightarrow> m | NonError \<Rightarrow> ''Unknown error occurred'')"

text \<open>\<^verbatim>\<open>xs.filter(p)\<close> with a callback that may throw, like \<^verbatim>\<open>map\<close> above.\<close>

fun filterE :: "('a \<Rightarrow> thrown + bool) \<Rightarrow> 'a list \<Rightarrow> thrown + 'a list" where
  "filterE p [] = Inr []"
| "filterE p (x # xs) =
     (case p x of
        Inl e \<Rightarrow> Inl e
      | Inr keep \<Rightarrow>
          (case filterE p xs of
             Inl e \<Rightarrow> Inl e
           | Inr ys \<Rightarrow> Inr (if keep then x # ys else ys)))"

definition thenE :: "thrown + 'a \<Rightarrow> ('a \<Rightarrow> thrown + 'b) \<Rightarrow> thrown + 'b" where
  "thenE m f = (case m of Inl e \<Rightarrow> Inl e | Inr x \<Rightarrow> f x)"

text \<open>\<^verbatim>\<open>a || b\<close> on booleans whose evaluation may throw: \<open>b\<close> is evaluated only when
  \<open>a\<close> is false.\<close>

definition orE :: "thrown + bool \<Rightarrow> thrown + bool \<Rightarrow> thrown + bool" where
  "orE m n = thenE m (\<lambda>x. if x then Inr True else n)"

text \<open>\<^verbatim>\<open>s.includes(t)\<close> on strings: \<open>t\<close> occurs in \<open>s\<close> at some position.\<close>

fun includes_str :: "string \<Rightarrow> string \<Rightarrow> bool" where
  "includes_str [] t = (t = [])"
| "includes_str (c # cs) t = (prefix t (c # cs) \<or> includes_str cs t)"

text \<open>\<^verbatim>\<open>v.toLowerCase()\<close>: only a string has the method.\<close>

definition lowerOf :: "builtins \<Rightarrow> jsval \<Rightarrow> thrown + string" where
  "lowerOf b v =
     (case v of
        Str s \<Rightarrow> Inr (toLowerCase b s)
      | _ \<Rightarrow> Inl (Error (typeErrorMessage b ''toLowerCase'')))"

text \<open>\<^verbatim>\<open>v.toLowerCase().includes(searchTerm.toLowerCase())\<close>\<close>

definition fieldIncludes :: "builtins \<Rightarrow> jsval \<Rightarrow> string \<Rightarrow> thrown + bool" where
  "fieldIncludes b v searchTerm =
     thenE (lowerOf b v) (\<lambda>s. Inr (includes_str s (toLowerCase b searchTerm)))"

text \<open>The states of the view that both variants share, and what it renders.\<close>

record 'p view =
  properties :: "'p list"
  filteredProperties :: "'p list"
  loading :: bool
  error :: "string option"
  searchTerm :: string
  showFilters :: bool

datatype 'p screen = LoadingScreen | ErrorScreen string | EmptyState | Cards "'p list"

definition render :: "('p, 'z) view_scheme \<Rightarrow> 'p screen" where
  "render s =
     (if loading s then LoadingScreen
      else (case error s of
              Some m \<Rightarrow>
                if m \<noteq> [] then ErrorScreen m
                else if filteredProperties s = [] then EmptyState
                else Cards (filteredProperties s)
            | None \<Rightarrow>
                if filteredProperties s = [] then EmptyState
                else Cards (filteredProperties s)))"

subsection \<open>Variant A: nested \<^verbatim>\<open>fields\<close> and \<^verbatim>\<open>taxonomies\<close>\<close>

text \<open>
  The interface \<^verbatim>\<open>Property\<close>.  The mapping builds it from \<^verbatim>\<open>doc: any\<close> without any
  check, so a field holds whatever the document held; only \<^verbatim>\<open>latitude\<close> and
  \<^verbatim>\<open>longitude\<close> are numbers by construction.
\<close>

record PropertyA =
  A_id :: jsval
  title :: jsval
  location :: jsval
  price :: jsval
  priceSqft :: jsval
  photoUrl :: jsval
  listingUrl :: jsval
  amenities :: jsval
  latitude :: jsnum
  longitude :: jsnum
  address :: jsval
  category :: jsval
  tags :: jsval
  projectHighlights :: jsval
  reraId :: jsval

text \<open>
  The callback of \<^verbatim>\<open>data.documents.map\<close>.  Its first read, \<^verbatim>\<open>doc._id\<close>, throws when
  \<^verbatim>\<open>doc\<close> is \<^verbatim>\<open>undefined\<close> or \<^verbatim>\<open>null\<close>; on any other value every \<^verbatim>\<open>doc.k\<close> reads as
  \<^verbatim>\<open>doc?.k\<close> does.
\<close>

definition mapDoc_A :: "builtins \<Rightarrow> jsval \<Rightarrow> thrown + PropertyA" where
  "mapDoc_A b doc =
     (case getProp b doc ''_id'' of
        Inl e \<Rightarrow> Inl e
      | Inr doc_id \<Rightarrow>
          Inr \<lparr>
            A_id = orElse (optProp doc_id ''$oid'') doc_id,
            title = orElse (optProp doc ''title'') (Str ''Unknown''),
            location =
              orElse (optIndex0 (optProp (optProp doc ''taxonomies'') ''at_biz_dir-location''))
                (Str ''Unknown''),
            price = orElse (optProp (optProp doc ''fields'') ''starting_bsp'') (Str ''N/A''),
            priceSqft = orElse (optProp (optProp doc ''fields'') ''price_sqft'') (Str ''N/A''),
            photoUrl = orElse (optProp (optProp doc ''fields'') ''photo_url'') (Str []),
            listingUrl = orElse (optProp (optProp doc ''fields'') ''listing_url'') (Str ''#''),
            amenities = orElse (optProp (optProp doc ''fields'') ''amenities'') (Arr []),
            latitude =
              (if truthy (optProp (optProp doc ''fields'') ''latitude'')
               then parseFloat b (optProp (optProp doc ''fields'') ''latitude'') else Fin 0),
            longitude =
              (if truthy (optProp (optProp doc ''fields'') ''longitude'')
               then parseFloat b (optProp (optProp doc ''fields'') ''longitude'') else Fin 0),
            address = orElse (optProp (optProp doc ''fields'') ''address'') (Str ''N/A''),
            category =
              orElse (optIndex0 (optProp (optProp doc ''taxonomies'') ''at_biz_dir-category''))
                (Str ''Unknown''),
            tags = orElse (optProp (optProp doc ''taxonomies'') ''at_biz_dir-tags'') (Arr []),
            projectHighlights =
              orElse (optProp (optProp doc ''fields'') ''project_highlights'') (Str ''N/A''),
            reraId = orElse (optProp (optProp doc ''fields'') ''rera_id'') (Str ''N/A'')
          \<rparr>)"

text \<open>The body of the \<^verbatim>\<open>try\<close> block after \<^verbatim>\<open>response.json()\<close>: the check of
  \<^verbatim>\<open>data.documents\<close> and the mapping (\<^verbatim>\<open>map\<close> is a method of arrays only).\<close>

definition processDocuments_A :: "builtins \<Rightarrow> jsval \<Rightarrow> thrown + PropertyA list" where
  "processDocuments_A b data =
     (case getProp b data ''documents'' of
        Inl e \<Rightarrow> Inl e
      | Inr documents \<Rightarrow>
          if \<not> truthy documents then Inl (Error ''No documents found in response'')
          else (case documents of
                  Arr docs \<Rightarrow> mapE (mapDoc_A b) docs
                | _ \<Rightarrow> Inl (Error (typeErrorMessage b ''map''))))"

record viewA = "PropertyA view" +
  categoryFilter :: string
  tagFilter :: string

definition initialA :: viewA where
  "initialA =
     \<lparr>properties = [], filteredProperties = [], loading = True, error = None,
      searchTerm = [], showFilters = False, categoryFilter = ''all'', tagFilter = ''all''\<rparr>"

text \<open>\<^verbatim>\<open>fetchProperties\<close>, from the outcome of \<^verbatim>\<open>fetch\<close> to the state it leaves.\<close>

definition fetchProperties_A :: "builtins \<Rightarrow> fetch_result \<Rightarrow> viewA \<Rightarrow> viewA" where
  "fetchProperties_A b res s =
     (case res of
        Rejected e \<Rightarrow> s\<lparr>loading := False, error := Some (caught_message e)\<rparr>
      | Resolved r \<Rightarrow>
          if \<not> ok r then
            s\<lparr>loading := False,
              error := Some (''Failed to fetch data: '' @ statusText b (status r) @ '' - ''
                             @ bodyText b (body r))\<rparr>
          else
            (case processDocuments_A b (json (body r)) of
               Inl e \<Rightarrow> s\<lparr>loading := False, error := Some (caught_message e)\<rparr>
             | Inr processedData \<Rightarrow>
                 s\<lparr>properties := processedData, filteredProperties := processedData,
                   loading := False, error := None\<rparr>))"

text \<open>\<^verbatim>\<open>property.tags.includes(tagFilter)\<close>: membership in an array, containment in a
  string, no such method on anything else.\<close>

definition tagsInclude :: "builtins \<Rightarrow> jsval \<Rightarrow> string \<Rightarrow> thrown + bool" where
  "tagsInclude b v tag =
     (case v of
        Arr vs \<Rightarrow> Inr (Str tag \<in> set vs)
      | Str s \<Rightarrow> Inr (includes_str s tag)
      | _ \<Rightarrow> Inl (Error (typeErrorMessage b ''includes'')))"

text \<open>The callback of \<^verbatim>\<open>properties.filter\<close>: the three constants in the order the
  source evaluates them.\<close>

definition keep_A :: "builtins \<Rightarrow> string \<Rightarrow> string \<Rightarrow> string \<Rightarrow> PropertyA \<Rightarrow> thrown + bool" where
  "keep_A b term cat tag property =
     thenE (orE (fieldIncludes b (title property) term)
             (orE (fieldIncludes b (location property) term)
                  (fieldIncludes b (address property) term)))
       (\<lambda>matchesSearch.
          let matchesCategory = (cat = ''all'' \<or> category property = Str cat) in
          thenE (if tag = ''all'' then Inr True else tagsInclude b (tags property) tag)
            (\<lambda>matchesTag. Inr (matchesSearch \<and> matchesCategory \<and> matchesTag)))"

definition filterProperties_A ::
  "builtins \<Rightarrow> string \<Rightarrow> string \<Rightarrow> string \<Rightarrow> PropertyA list \<Rightarrow> thrown + PropertyA list" where
  "filterProperties_A b term cat tag ps = filterE (keep_A b term cat tag) ps"

text \<open>The effect that runs \<^verbatim>\<open>filterProperties\<close> on the state.\<close>

definition filterEffect_A :: "builtins \<Rightarrow> viewA \<Rightarrow> thrown + viewA" where
  "filterEffect_A b s =
     (case filterProperties_A b (searchTerm s) (categoryFilter s) (tagFilter s) (properties s) of
        Inl e \<Rightarrow> Inl e
      | Inr filtered \<Rightarrow> Inr (s\<lparr>filteredProperties := filtered\<rparr>))"

subsection \<open>Variant B: flat fields and boxed numbers\<close>

record PropertyB =
  B_id :: jsval
  Apartment_Name :: jsval
  Location :: jsval
  Minimum_Price :: jsnum
  Maximum_Price :: jsnum
  Per_Sqft_Cost :: jsnum
  Number_of_Units :: jsnum
  Total_Area :: jsval
  Project_Status :: jsval
  Photo_URL :: jsval
  Listing_URL :: jsval
  Amenities :: jsval
  Latitude :: jsnum
  Longitude :: jsnum

text \<open>
  \<^verbatim>\<open>v?.$w ? parse(v.$w) : typeof v === "number" ? v : 0\<close>, for the wrapper \<open>w\<close>
  (\<^verbatim>\<open>$numberInt\<close> or \<^verbatim>\<open>$numberDouble\<close>) and its parser.
\<close>

definition unboxed :: "(jsval \<Rightarrow> jsnum) \<Rightarrow> string \<Rightarrow> jsval \<Rightarrow> jsnum" where
  "unboxed parse wrapper v =
     (if truthy (optProp v wrapper) then parse (optProp v wrapper)
      else (case v of Num n \<Rightarrow> n | _ \<Rightarrow> Fin 0))"

definition mapDoc_B :: "builtins \<Rightarrow> jsval \<Rightarrow> thrown + PropertyB" where
  "mapDoc_B b doc =
     (case getProp b doc ''_id'' of
        Inl e \<Rightarrow> Inl e
      | Inr doc_id \<Rightarrow>
          Inr \<lparr>
            B_id = orElse (optProp doc_id ''$oid'') doc_id,
            Apartment_Name = orElse (optProp doc ''Apartment Name'') (Str ''Unknown''),
            Location = orElse (optProp doc ''Location'') (Str ''Unknown''),
            Minimum_Price = unboxed (parseInt b) ''$numberInt'' (optProp doc ''Minimum Price''),
            Maximum_Price = unboxed (parseInt b) ''$numberInt'' (optProp doc ''Maximum Price''),
            Per_Sqft_Cost = unboxed (parseFloat b) ''$numberDouble'' (optProp doc ''Per Sqft Cost''),
            Number_of_Units = unboxed (parseInt b) ''$numberInt'' (optProp doc ''Number of Units''),
            Total_Area = orElse (optProp doc ''Total Area'') (Str ''N/A''),
            Project_Status = orElse (optProp doc ''Project Status'') (Str ''Unknown''),
            Photo_URL = orElse (optProp doc ''Photo URL'') (Str []),
            Listing_URL = orElse (optProp doc ''Listing URL'') (Str ''#''),
            Amenities = orElse (optProp doc ''Amenities'') (Arr []),
            Latitude = unboxed (parseFloat b) ''$numberDouble'' (optProp doc ''Latitude''),
            Longitude = unboxed (parseFloat b) ''$numberDouble'' (optProp doc ''Longitude'')
          \<rparr>)"

definition processDocuments_B :: "builtins \<Rightarrow> jsval \<Rightarrow> thrown + PropertyB list" where
  "processDocuments_B b data =
     (case getProp b data ''documents'' of
        Inl e \<Rightarrow> Inl e
      | Inr documents \<Rightarrow>
          if \<not> truthy documents then Inl (Error ''No documents found in response'')
          else (case documents of
                  Arr docs \<Rightarrow> mapE (mapDoc_B b) docs
                | _ \<Rightarrow> Inl (Error (typeErrorMessage b ''map''))))"

record viewB = "PropertyB view" +
  statusFilter :: string
  priceRange :: "jsnum \<times> jsnum"

definition initialB :: viewB where
  "initialB =
     \<lparr>properties = [], filteredProperties = [], loading = True, error = None,
      searchTerm = [], showFilters = False, statusFilter = ''all'',
      priceRange = (Fin 0, Fin 100000000)\<rparr>"

definition fetchProperties_B :: "builtins \<Rightarrow> fetch_result \<Rightarrow> viewB \<Rightarrow> viewB" where
  "fetchProperties_B b res s =
     (case res of
        Rejected e \<Rightarrow> s\<lparr>loading := False, error := Some (caught_message e)\<rparr>
      | Resolved r \<Rightarrow>
          if \<not> ok r then
            s\<lparr>loading := False,
              error := Some (''Failed to fetch data: '' @ statusText b (status r) @ '' - ''
                             @ bodyText b (body r))\<rparr>
          else
            (case processDocuments_B b (json (body r)) of
               Inl e \<Rightarrow> s\<lparr>loading := False, error := Some (caught_message e)\<rparr>
             | Inr processedData \<Rightarrow>
                 s\<lparr>properties := processedData, filteredProperties := processedData,
                   loading := False, error := None\<rparr>))"

text \<open>\<^verbatim>\<open>x <= y\<close> on numbers: false as soon as one side is \<^verbatim>\<open>NaN\<close>.\<close>

fun num_le :: "jsnum \<Rightarrow> jsnum \<Rightarrow> bool" where
  "num_le NaN y = False"
| "num_le x NaN = False"
| "num_le (Fin x) (Fin y) = (x \<le> y)"
| "num_le NegInf y = True"
| "num_le x PosInf = True"
| "num_le x y = False"

definition keep_B ::
  "builtins \<Rightarrow> string \<Rightarrow> string \<Rightarrow> jsnum \<times> jsnum \<Rightarrow> PropertyB \<Rightarrow> thrown + bool" where
  "keep_B b term st rng property =
     thenE (orE (fieldIncludes b (Apartment_Name property) term)
                (fieldIncludes b (Location property) term))
       (\<lambda>matchesSearch.
          let matchesStatus = (st = ''all'' \<or> Project_Status property = Str st);
              price = Minimum_Price property;
              matchesPrice = (num_le (fst rng) price \<and> num_le price (snd rng))
          in Inr (matchesSearch \<and> matchesStatus \<and> matchesPrice))"

definition filterProperties_B ::
  "builtins \<Rightarrow> string \<Rightarrow> string \<Rightarrow> jsnum \<times> jsnum \<Rightarrow> PropertyB list \<Rightarrow> thrown + PropertyB list" where
  "filterProperties_B b term st rng ps = filterE (keep_B b term st rng) ps"

definition filterEffect_B :: "builtins \<Rightarrow> viewB \<Rightarrow> thrown + viewB" where
  "filterEffect_B b s =
     (case filterProperties_B b (searchTerm s) (statusFilter s) (priceRange s) (properties s) of
        Inl e \<Rightarrow> Inl e
      | Inr filtered \<Rightarrow> Inr (s\<lparr>filteredProperties := filtered\<rparr>))"

section \<open>Records that conform to the declared interface\<close>

text \<open>
  The interface declares \<^verbatim>\<open>string\<close> and \<^verbatim>\<open>string[]\<close> fields.  A record conforms when its
  fields hold values of the declared types.
\<close>

definition isStr :: "jsval \<Rightarrow> bool" where
  "isStr v = (case v of Str s \<Rightarrow> True | _ \<Rightarrow> False)"

definition isStrArr :: "jsval \<Rightarrow> bool" where
  "isStrArr v = (case v of Arr vs \<Rightarrow> list_all isStr vs | _ \<Rightarrow> False)"

definition isObj :: "jsval \<Rightarrow> bool" where
  "isObj v = (case v of Obj kvs \<Rightarrow> True | _ \<Rightarrow> False)"

definition isArr :: "jsval \<Rightarrow> bool" where
  "isArr v = (case v of Arr vs \<Rightarrow> True | _ \<Rightarrow> False)"

definition conforms_A :: "PropertyA \<Rightarrow> bool" where
  "conforms_A p =
     (isStr (A_id p) \<and> isStr (title p) \<and> isStr (location p) \<and> isStr (price p) \<and>
      isStr (priceSqft p) \<and> isStr (photoUrl p) \<and> isStr (listingUrl p) \<and>
      isStrArr (amenities p) \<and> isStr (address p) \<and> isStr (category p) \<and>
      isStrArr (tags p) \<and> isStr (projectHighlights p) \<and> isStr (reraId p))"

definition conforms_B :: "PropertyB \<Rightarrow> bool" where
  "conforms_B p =
     (isStr (B_id p) \<and> isStr (Apartment_Name p) \<and> isStr (Location p) \<and>
      isStr (Total_Area p) \<and> isStr (Project_Status p) \<and> isStr (Photo_URL p) \<and>
      isStr (Listing_URL p) \<and> isStrArr (Amenities p))"

text \<open>
  What the filter reads.  A record of variant A is searchable when its title, location and
  address hold strings and its tags hold an array; a record of variant B when its name and
  location hold strings (its minimum price is a number by construction).
\<close>

definition searchable_A :: "PropertyA \<Rightarrow> bool" where
  "searchable_A p =
     (isStr (title p) \<and> isStr (location p) \<and> isStr (address p) \<and> isArr (tags p))"

definition searchable_B :: "PropertyB \<Rightarrow> bool" where
  "searchable_B p = (isStr (Apartment_Name p) \<and> isStr (Location p))"

text \<open>A record is complete when none of its optional fields is left \<^verbatim>\<open>undefined\<close>
  (the numeric fields are numbers by their type).\<close>

definition complete_A :: "PropertyA \<Rightarrow> bool" where
  "complete_A p =
     (title p \<noteq> Undefined \<and> location p \<noteq> Undefined \<and> price p \<noteq> Undefined \<and>
      priceSqft p \<noteq> Undefined \<and> photoUrl p \<noteq> Undefined \<and> listingUrl p \<noteq> Undefined \<and>
      amenities p \<noteq> Undefined \<and> address p \<noteq> Undefined \<and> category p \<noteq> Undefined \<and>
      tags p \<noteq> Undefined \<and> projectHighlights p \<noteq> Undefined \<and> reraId p \<noteq> Undefined)"

definition complete_B :: "PropertyB \<Rightarrow> bool" where
  "complete_B p =
     (Apartment_Name p \<noteq> Undefined \<and> Location p \<noteq> Undefined \<and> Total_Area p \<noteq> Undefined \<and>
      Project_Status p \<noteq> Undefined \<and> Photo_URL p \<noteq> Undefined \<and>
      Listing_URL p \<noteq> Undefined \<and> Amenities p \<noteq> Undefined)"

section \<open>The filter as the specification words it\<close>

text \<open>
  String containment, after both sides are lower-cased: the lower-cased search term occurs
  somewhere inside the lower-cased field.
\<close>

definition contains_ci :: "builtins \<Rightarrow> string \<Rightarrow> string \<Rightarrow> bool" where
  "contains_ci b field term =
     (\<exists>before after. toLowerCase b field = before @ toLowerCase b term @ after)"

definition field_contains :: "builtins \<Rightarrow> jsval \<Rightarrow> string \<Rightarrow> bool" where
  "field_contains b v term = (\<exists>s. v = Str s \<and> contains_ci b s term)"

text \<open>
  Variant A keeps a record when the search term is contained in its title, location or
  address, its category equals the selected one, and the selected tag is a member of its
  tag list; the selection \<^verbatim>\<open>all\<close> imposes nothing.
\<close>

definition spec_keep_A :: "builtins \<Rightarrow> string \<Rightarrow> string \<Rightarrow> string \<Rightarrow> PropertyA \<Rightarrow> bool" where
  "spec_keep_A b term cat tag p =
     ((field_contains b (title p) term \<or> field_contains b (location p) term \<or>
       field_contains b (address p) term) \<and>
      (cat = ''all'' \<or> category p = Str cat) \<and>
      (tag = ''all'' \<or> (\<exists>vs. tags p = Arr vs \<and> Str tag \<in> set vs)))"

text \<open>
  The order of the numbers a range is made of: a comparison with \<^verbatim>\<open>NaN\<close> never holds,
  minus infinity lies below and plus infinity above every number, and finite numbers
  compare by their values.
\<close>

definition ext_le :: "jsnum \<Rightarrow> jsnum \<Rightarrow> bool" where
  "ext_le x y =
     (x \<noteq> NaN \<and> y \<noteq> NaN \<and>
      (x = NegInf \<or> y = PosInf \<or> (\<exists>q r. x = Fin q \<and> y = Fin r \<and> q \<le> r)))"

text \<open>
  Variant B keeps a record when the search term is contained in its name or location, its
  status equals the selected one (or the selection is \<^verbatim>\<open>all\<close>), and its minimum price
  lies between the two bounds of the selected range, bounds included.
\<close>

definition spec_keep_B ::
  "builtins \<Rightarrow> string \<Rightarrow> string \<Rightarrow> jsnum \<times> jsnum \<Rightarrow> PropertyB \<Rightarrow> bool" where
  "spec_keep_B b term st rng p =
     ((field_contains b (Apartment_Name p) term \<or> field_contains b (Location p) term) \<and>
      (st = ''all'' \<or> Project_Status p = Str st) \<and>
      ext_le (fst rng) (Minimum_Price p) \<and> ext_le (Minimum_Price p) (snd rng))"

section \<open>Concrete inputs\<close>

text \<open>
  Stand-ins for the built-in functions, exact on the values the examples use: lower-casing
  of ASCII letters, a number that needs no parsing, three-digit status codes.
\<close>

definition asciiLower :: "char \<Rightarrow> char" where
  "asciiLower c =
     (case map_of (zip ''ABCDEFGHIJKLMNOPQRSTUVWXYZ'' ''abcdefghijklmnopqrstuvwxyz'') c of
        Some l \<Rightarrow> l
      | None \<Rightarrow> c)"

definition digit :: "nat \<Rightarrow> char" where
  "digit n = ''0123456789'' ! (n mod 10)"

definition exampleBuiltins :: builtins where
  "exampleBuiltins =
     \<lparr>parseFloat = (\<lambda>v. case v of Num n \<Rightarrow> n | _ \<Rightarrow> NaN),
      parseInt = (\<lambda>v. case v of Num n \<Rightarrow> n | _ \<Rightarrow> NaN),
      toLowerCase = map asciiLower,
      statusText = (\<lambda>n. [digit (n div 100), digit (n div 10), digit n]),
      bodyText = (\<lambda>v. []),
      typeErrorMessage = (\<lambda>name. ''TypeError: '' @ name)\<rparr>"

text \<open>A driver that accepts every connection string and always connects, over a database
  that holds the given documents in every collection.\<close>

definition healthy :: "rawdoc list \<Rightarrow> world" where
  "healthy docs =
     \<lparr>newClient = (\<lambda>uri. None), connectFails = None, queryFails = None,
      database = (\<lambda>db coll. docs),
      serverTypeError = (\<lambda>name. ''TypeError: '' @ name)\<rparr>"

text \<open>A driver that rejects a connection string that does not start with a scheme it
  knows, as the driver's connection-string parser does.\<close>

definition parsing :: "rawdoc list \<Rightarrow> world" where
  "parsing docs =
     \<lparr>newClient = (\<lambda>uri.
        if prefix ''mongodb://'' uri \<or> prefix ''mongodb+srv://'' uri then None
        else Some (Error ''Invalid scheme, expected connection string to start with mongodb:// or mongodb+srv://'')),
      connectFails = None, queryFails = None,
      database = (\<lambda>db coll. docs),
      serverTypeError = (\<lambda>name. ''TypeError: '' @ name)\<rparr>"

definition tower :: rawdoc where
  "tower =
     \<lparr>raw_id = ObjectId ''64b7f0c2a1d4e5f6a7b8c9d0'',
      props = [(''title'', Str ''Skyline Tower''),
               (''address'', Str ''Sector 62, Noida''),
               (''starting_bsp'', Str ''1.2 Cr''),
               (''at_biz_dir-category'', Arr [Str ''Residential'']),
               (''at_biz_dir-location'', Arr [Str ''Noida'']),
               (''at_biz_dir-tags'', Arr [Str ''Premium'', Str ''Verified''])]\<rparr>"

definition plaza :: rawdoc where
  "plaza =
     \<lparr>raw_id = ObjectId ''64b7f0c2a1d4e5f6a7b8c9d1'',
      props = [(''Apartment Name'', Str ''Green Plaza''),
               (''Location'', Str ''Pune''),
               (''Minimum Price'', Num (Fin 4500000)),
               (''Project Status'', Str ''Ready to Move'')]\<rparr>"

definition towerA :: PropertyA where
  "towerA =
     \<lparr>A_id = Str ''64b7f0c2a1d4e5f6a7b8c9d0'', title = Str ''Skyline Tower'',
      location = Str ''Noida'', price = Str ''1.2 Cr'', priceSqft = Str ''N/A'',
      photoUrl = Str [], listingUrl = Str ''#'', amenities = Arr [],
      latitude = Fin 0, longitude = Fin 0, address = Str ''Sector 62, Noida'',
      category = Str ''Residential'', tags = Arr [Str ''Premium'', Str ''Verified''],
      projectHighlights = Str ''N/A'', reraId = Str ''N/A''\<rparr>"

definition mallA :: PropertyA where
  "mallA =
     \<lparr>A_id = Str ''64b7f0c2a1d4e5f6a7b8c9d2'', title = Str ''City Mall'',
      location = Str ''Delhi'', price = Str ''N/A'', priceSqft = Str ''N/A'',
      photoUrl = Str [], listingUrl = Str ''#'', amenities = Arr [],
      latitude = Fin 0, longitude = Fin 0, address = Str ''N/A'',
      category = Str ''Commercial'', tags = Arr [],
      projectHighlights = Str ''N/A'', reraId = Str ''N/A''\<rparr>"

definition plazaB :: PropertyB where
  "plazaB =
     \<lparr>B_id = Str ''64b7f0c2a1d4e5f6a7b8c9d1'', Apartment_Name = Str ''Green Plaza'',
      Location = Str ''Pune'', Minimum_Price = Fin 4500000, Maximum_Price = Fin 0,
      Per_Sqft_Cost = Fin 0, Number_of_Units = Fin 0, Total_Area = Str ''N/A'',
      Project_Status = Str ''Ready to Move'', Photo_URL = Str [], Listing_URL = Str ''#'',
      Amenities = Arr [], Latitude = Fin 0, Longitude = Fin 0\<rparr>"

definition villaB :: PropertyB where
  "villaB =
     \<lparr>B_id = Str ''64b7f0c2a1d4e5f6a7b8c9d3'', Apartment_Name = Str ''Lake Villa'',
      Location = Str ''Goa'', Minimum_Price = Fin 250000000, Maximum_Price = Fin 0,
      Per_Sqft_Cost = Fin 0, Number_of_Units = Fin 0, Total_Area = Str ''N/A'',
      Project_Status = Str ''New Launch'', Photo_URL = Str [], Listing_URL = Str ''#'',
      Amenities = Arr [], Latitude = Fin 0, Longitude = Fin 0\<rparr>"

text \<open>A stored document whose \<^verbatim>\<open>_id\<close> is a string, and one whose title is a number.\<close>

definition legacy :: rawdoc where
  "legacy = \<lparr>raw_id = OtherId (Str ''abc''), props = [(''title'', Str ''T'')]\<rparr>"

definition numbered :: rawdoc where
  "numbered =
     \<lparr>raw_id = ObjectId ''64b7f0c2a1d4e5f6a7b8c9d8'', props = [(''title'', Num (Fin 5))]\<rparr>"

definition numberedA :: PropertyA where
  "numberedA =
     \<lparr>A_id = Str ''64b7f0c2a1d4e5f6a7b8c9d8'', title = Num (Fin 5),
      location = Str ''Unknown'', price = Str ''N/A'', priceSqft = Str ''N/A'',
      photoUrl = Str [], listingUrl = Str ''#'', amenities = Arr [],
      latitude = Fin 0, longitude = Fin 0, address = Str ''N/A'',
      category = Str ''Unknown'', tags = Arr [],
      projectHighlights = Str ''N/A'', reraId = Str ''N/A''\<rparr>"

text \<open>A record whose tags are one string instead of a list, as the mapping stores it when
  the document's \<^verbatim>\<open>at_biz_dir-tags\<close> is a string.\<close>

definition taggedA :: PropertyA where
  "taggedA = towerA\<lparr>A_id := Str ''64b7f0c2a1d4e5f6a7b8c9d9'', tags := Str ''Premium Plus''\<rparr>"

text \<open>Records of variant A that differ from \<^verbatim>\<open>Skyline Tower\<close> in one respect each: the
  category, the tags, the title, and a title without the word but an address with it.\<close>

definition officeA :: PropertyA where
  "officeA =
     towerA\<lparr>A_id := Str ''64b7f0c2a1d4e5f6a7b8c9d4'', title := Str ''Tower Offices'',
            category := Str ''Commercial''\<rparr>"

definition parkA :: PropertyA where
  "parkA =
     towerA\<lparr>A_id := Str ''64b7f0c2a1d4e5f6a7b8c9d5'', title := Str ''Park Tower'',
            tags := Arr [Str ''Verified'']\<rparr>"

definition heightsA :: PropertyA where
  "heightsA = towerA\<lparr>A_id := Str ''64b7f0c2a1d4e5f6a7b8c9d6'', title := Str ''Lake Heights''\<rparr>"

definition annexA :: PropertyA where
  "annexA =
     towerA\<lparr>A_id := Str ''64b7f0c2a1d4e5f6a7b8c9d7'', title := Str ''Annex'',
            address := Str ''12 Tower Road''\<rparr>"

text \<open>Records of variant B that differ from \<^verbatim>\<open>Green Plaza\<close> in one respect each: the
  price, the status, the name, and a name without the letters but a location with them.\<close>

definition placeB :: PropertyB where
  "placeB =
     plazaB\<lparr>B_id := Str ''64b7f0c2a1d4e5f6a7b8c9e1'', Apartment_Name := Str ''Palm Place'',
            Minimum_Price := Fin 250000000\<rparr>"

definition plotB :: PropertyB where
  "plotB =
     plazaB\<lparr>B_id := Str ''64b7f0c2a1d4e5f6a7b8c9e2'', Apartment_Name := Str ''Plot Nine'',
            Project_Status := Str ''New Launch''\<rparr>"

definition gardenB :: PropertyB where
  "gardenB = plazaB\<lparr>B_id := Str ''64b7f0c2a1d4e5f6a7b8c9e3'', Apartment_Name := Str ''Garden''\<rparr>"

definition courtB :: PropertyB where
  "courtB =
     plazaB\<lparr>B_id := Str ''64b7f0c2a1d4e5f6a7b8c9e4'', Apartment_Name := Str ''Court'',
            Location := Str ''Plains''\<rparr>"

section \<open>Properties of the fetch endpoint\<close>

lemma GET_A_cases:
  "GET_A w env c req =
     (case getMongoClient_A w env c of
        (Inl e, c') \<Rightarrow> (catch_response e, c')
      | (Inr client, c') \<Rightarrow>
          (case connectFails w of
             Some e \<Rightarrow> (catch_response e, c')
           | None \<Rightarrow>
               (case queryFails w of
                  Some e \<Rightarrow> (catch_response e, c')
                | None \<Rightarrow>
                    (case mapE (formatProperty w) (take 500 (database w ''proptrust'' ''listings'')) of
                       Inl e \<Rightarrow> (catch_response e, c')
                     | Inr ds \<Rightarrow>
                         (\<lparr>status = 200, body = Obj [(''documents'', Arr ds)]\<rparr>, c')))))"
  by (auto simp: GET_A_def find_limit_toArray_def split: prod.splits sum.splits option.splits)

lemma GET_B_cases:
  "GET_B w env c req =
     (case getMongoClient_B w env c of
        (Inl e, c') \<Rightarrow> (catch_response e, c')
      | (Inr client, c') \<Rightarrow>
          (case connectFails w of
             Some e \<Rightarrow> (catch_response e, c')
           | None \<Rightarrow>
               (case queryFails w of
                  Some e \<Rightarrow> (catch_response e, c')
                | None \<Rightarrow>
                    (\<lparr>status = 200,
                      body = Obj [(''documents'',
                        Arr (map docValue (take 500 (database w ''ccube_research'' ''apartment''))))]\<rparr>,
                     c'))))"
  by (simp add: GET_B_def find_limit_toArray_def split: prod.splits sum.splits option.splits)

lemma catch_response_shape:
  "\<exists>m. catch_response e = \<lparr>status = 500, body = Obj [(''error'', Str m)]\<rparr>"
  by (simp add: catch_response_def)

lemma GET_A_outcome:
  "((\<exists>ds. fst (GET_A w env c req) = \<lparr>status = 200, body = Obj [(''documents'', Arr ds)]\<rparr> \<and>
          mapE (formatProperty w) (take 500 (database w ''proptrust'' ''listings'')) = Inr ds) \<and>
    (\<exists>client. fst (getMongoClient_A w env c) = Inr client) \<and>
    connectFails w = None \<and> queryFails w = None)
   \<or>
   ((\<exists>m. fst (GET_A w env c req) = \<lparr>status = 500, body = Obj [(''error'', Str m)]\<rparr>) \<and>
    ((\<exists>e. fst (getMongoClient_A w env c) = Inl e) \<or> (\<exists>e. connectFails w = Some e) \<or>
     (\<exists>e. queryFails w = Some e) \<or>
     (\<exists>e. mapE (formatProperty w) (take 500 (database w ''proptrust'' ''listings'')) = Inl e)))"
proof (cases "getMongoClient_A w env c")
  case (Pair r c')
  show ?thesis
  proof (cases r)
    case (Inl e)
    with Pair show ?thesis
      using catch_response_shape [of e] by (auto simp: GET_A_cases)
  next
    case (Inr client)
    show ?thesis
    proof (cases "connectFails w")
      case (Some e)
      with Pair Inr show ?thesis
        using catch_response_shape [of e] by (auto simp: GET_A_cases)
    next
      case None
      note conn = None
      show ?thesis
      proof (cases "queryFails w")
        case (Some e)
        with Pair Inr conn show ?thesis
          using catch_response_shape [of e] by (auto simp: GET_A_cases)
      next
        case None
        note query = None
        show ?thesis
        proof (cases "mapE (formatProperty w) (take 500 (database w ''proptrust'' ''listings''))")
          case (Inl e)
          with Pair Inr conn query show ?thesis
            using catch_response_shape [of e] by (auto simp: GET_A_cases)
        next
          case (Inr ds)
          with Pair \<open>r = Inr client\<close> conn query show ?thesis
            by (simp add: GET_A_cases)
        qed
      qed
    qed
  qed
qed

lemma GET_B_outcome:
  "((\<exists>ds. fst (GET_B w env c req) = \<lparr>status = 200, body = Obj [(''documents'', Arr ds)]\<rparr>) \<and>
    (\<exists>client. fst (getMongoClient_B w env c) = Inr client) \<and>
    connectFails w = None \<and> queryFails w = None)
   \<or>
   ((\<exists>m. fst (GET_B w env c req) = \<lparr>status = 500, body = Obj [(''error'', Str m)]\<rparr>) \<and>
    ((\<exists>e. fst (getMongoClient_B w env c) = Inl e) \<or> (\<exists>e. connectFails w = Some e) \<or>
     (\<exists>e. queryFails w = Some e)))"
proof (cases "getMongoClient_B w env c")
  case (Pair r c')
  show ?thesis
  proof (cases r)
    case (Inl e)
    with Pair show ?thesis
      using catch_response_shape [of e] by (auto simp: GET_B_cases)
  next
    case (Inr client)
    show ?thesis
    proof (cases "connectFails w")
      case (Some e)
      with Pair Inr show ?thesis
        using catch_response_shape [of e] by (auto simp: GET_B_cases)
    next
      case None
      note conn = None
      show ?thesis
      proof (cases "queryFails w")
        case (Some e)
        with Pair Inr conn show ?thesis
          using catch_response_shape [of e] by (auto simp: GET_B_cases)
      next
        case None
        with Pair Inr conn show ?thesis
          by (simp add: GET_B_cases)
      qed
    qed
  qed
qed

lemma getMongoClient_B_missing:
  "env = None \<or> env = Some [] \<Longrightarrow>
   getMongoClient_B w env None =
     (Inl (Error ''MONGODB_URI environment variable not configured''), None)"
  by (auto simp: getMongoClient_B_def)

text \<open>
  C2.  Whatever the driver and the database do, each handler answers in one of two ways:
  status 200 with the body \<^verbatim>\<open>{documents: [...]}\<close>, exactly when the client handle was
  obtained, neither the connection nor the query failed and (in variant A) the formatting
  of the documents did not throw; or status 500 with the body \<^verbatim>\<open>{error: m}\<close>, \<open>m\<close> a
  string, exactly when one of these steps threw.  In variant B a missing or empty
  connection string, with no cached handle, is such a failure of the first step.
\<close>

theorem GET_responds_200_documents_or_500_error:
  "(((\<exists>ds. fst (GET_A w env c req) = \<lparr>status = 200, body = Obj [(''documents'', Arr ds)]\<rparr> \<and>
           mapE (formatProperty w) (take 500 (database w ''proptrust'' ''listings'')) = Inr ds) \<and>
     (\<exists>client. fst (getMongoClient_A w env c) = Inr client) \<and>
     connectFails w = None \<and> queryFails w = None)
    \<or>
    ((\<exists>m. fst (GET_A w env c req) = \<lparr>status = 500, body = Obj [(''error'', Str m)]\<rparr>) \<and>
     ((\<exists>e. fst (getMongoClient_A w env c) = Inl e) \<or> (\<exists>e. connectFails w = Some e) \<or>
      (\<exists>e. queryFails w = Some e) \<or>
      (\<exists>e. mapE (formatProperty w) (take 500 (database w ''proptrust'' ''listings'')) = Inl e))))
   \<and>
   (((\<exists>ds. fst (GET_B w env c req) = \<lparr>status = 200, body = Obj [(''documents'', Arr ds)]\<rparr>) \<and>
     (\<exists>client. fst (getMongoClient_B w env c) = Inr client) \<and>
     connectFails w = None \<and> queryFails w = None)
    \<or>
    ((\<exists>m. fst (GET_B w env c req) = \<lparr>status = 500, body = Obj [(''error'', Str m)]\<rparr>) \<and>
     ((\<exists>e. fst (getMongoClient_B w env c) = Inl e) \<or> (\<exists>e. connectFails w = Some e) \<or>
      (\<exists>e. queryFails w = Some e))))
   \<and>
   ((env = None \<or> env = Some []) \<and> c = None \<longrightarrow>
      (\<exists>e. fst (getMongoClient_B w env c) = Inl e))"
proof (intro conjI)
  show "(env = None \<or> env = Some []) \<and> c = None \<longrightarrow>
      (\<exists>e. fst (getMongoClient_B w env c) = Inl e)"
    using getMongoClient_B_missing [of env w] by auto
qed (rule GET_A_outcome, rule GET_B_outcome)

theorem GET_responds_200_documents_or_500_error_witness:
  "(\<exists>f. formatProperty (healthy [tower]) tower = Inr f \<and>
        fst (GET_A (healthy [tower]) (Some ''mongodb://db.example/?retryWrites=true'') None ()) =
          \<lparr>status = 200, body = Obj [(''documents'', Arr [f])]\<rparr>) \<and>
   fst (GET_A (healthy [legacy]) (Some ''mongodb://db.example/?retryWrites=true'') None ()) =
     \<lparr>status = 500, body = Obj [(''error'', Str ''TypeError: toHexString'')]\<rparr> \<and>
   (\<exists>m. fst (GET_B (healthy [plaza]) None None ()) =
     \<lparr>status = 500, body = Obj [(''error'', Str m)]\<rparr>) \<and>
   (\<exists>e. fst (getMongoClient_B (healthy [plaza]) None None) = Inl e)"
  using GET_responds_200_documents_or_500_error
    [of "healthy [tower]" "Some ''mongodb://db.example/?retryWrites=true''" None "()"]
    GET_responds_200_documents_or_500_error [of "healthy [plaza]" None None "()"]
  by (simp add: GET_A_cases GET_B_cases getMongoClient_A_def getMongoClient_B_def uri_A_def
      healthy_def catch_response_def formatProperty_def toHexString_def tower_def legacy_def)

text \<open>
  C9.  The handlers take the request and never read it: two invocations on any two
  requests, against the same driver, environment and cached handle, give the same response
  and leave the same cached handle.
\<close>

theorem GET_ignores_request:
  "GET_A w env c req1 = GET_A w env c req2 \<and> GET_B w env c req1 = GET_B w env c req2"
  by (simp add: GET_A_def GET_B_def)

text \<open>
  Variant B reports a missing variable under its own name, on every invocation: the cached
  handle stays empty, so the next invocation starts from the same state.
\<close>

lemma GET_B_missing_MONGODB_URI:
  "GET_B w None None req =
     (\<lparr>status = 500,
       body = Obj [(''error'', Str ''MONGODB_URI environment variable not configured'')]\<rparr>,
      None) \<and>
   includes_str ''MONGODB_URI environment variable not configured'' ''MONGODB_URI''"
  by (simp add: GET_B_def getMongoClient_B_def catch_response_def)

text \<open>
  Variant A appends \<^verbatim>\<open>"&ssl=false"\<close> before it tests the string, so the test never fires:
  the connection string is never empty, and with the variable missing the handler passes
  the text \<^verbatim>\<open>undefined&ssl=false\<close> on to the driver.
\<close>

lemma uri_A_never_empty: "uri_A env \<noteq> []"
  by (simp add: uri_A_def)

lemma getMongoClient_A_missing:
  "getMongoClient_A w None None =
     (case newClient w ''undefined&ssl=false'' of
        Some e \<Rightarrow> (Inl e, None)
      | None \<Rightarrow> (Inr ''undefined&ssl=false'', Some ''undefined&ssl=false''))"
  by (simp add: getMongoClient_A_def uri_A_def split: option.splits)

lemma GET_A_missing_message_is_the_drivers:
  assumes "fst (GET_A w None None req) = \<lparr>status = 500, body = Obj [(''error'', Str m)]\<rparr>"
  shows "\<exists>e. (newClient w ''undefined&ssl=false'' = Some e \<or> connectFails w = Some e \<or>
               queryFails w = Some e \<or>
               mapE (formatProperty w) (take 500 (database w ''proptrust'' ''listings'')) = Inl e) \<and>
              m = (case e of Error m' \<Rightarrow> m' | NonError \<Rightarrow> ''Failed to fetch properties'')"
  using assms
  by (auto simp: GET_A_cases getMongoClient_A_missing catch_response_def
      split: option.splits sum.splits)

text \<open>
  C3, the failing input: variant A, the variable missing, no cached handle, a driver that
  rejects a connection string without a scheme.  The response is a 500 whose message is the
  driver's, and the name of the variable does not occur in it.
\<close>

theorem GET_A_missing_MONGODB_URI:
  "GET_A (parsing []) None None () =
     (\<lparr>status = 500,
       body = Obj [(''error'',
         Str ''Invalid scheme, expected connection string to start with mongodb:// or mongodb+srv://'')]\<rparr>,
      None) \<and>
   \<not> includes_str
       ''Invalid scheme, expected connection string to start with mongodb:// or mongodb+srv://''
       ''MONGODB_URI''"
  by (simp add: GET_A_cases getMongoClient_A_missing parsing_def catch_response_def)

section \<open>Properties of the mapping to view-model records\<close>

lemma length_jsonElems: "length (jsonElems vs) = length vs"
  by (induction vs) auto

lemma jsonElems_objects: "list_all isObj vs \<Longrightarrow> list_all isObj (jsonElems vs)"
  by (induction vs) (auto simp: isObj_def split: jsval.splits)

lemma jsonProps_keys: "fst ` set (jsonProps kvs) \<subseteq> fst ` set kvs"
proof (induction kvs)
  case Nil
  show ?case by simp
next
  case (Cons kv kvs)
  obtain k v where "kv = (k, v)" by (cases kv)
  with Cons.IH show ?case by (cases "v = Undefined") auto
qed

lemma lookup_absent: "k \<notin> fst ` set kvs \<Longrightarrow> lookup kvs k = Undefined"
proof -
  assume "k \<notin> fst ` set kvs"
  then have "map_of kvs k = None" by (simp add: map_of_eq_None_iff)
  then show ?thesis by (simp add: lookup_def)
qed

lemma lookup_jsonProps_absent: "k \<notin> fst ` set kvs \<Longrightarrow> lookup (jsonProps kvs) k = Undefined"
  using jsonProps_keys [of kvs] by (intro lookup_absent) blast

lemma lookup_jsonProps:
  "distinct (map fst kvs) \<Longrightarrow> lookup (jsonProps kvs) k = json (lookup kvs k)"
proof (induction kvs)
  case Nil
  show ?case by (simp add: lookup_def)
next
  case (Cons kv kvs)
  obtain k' v where kv: "kv = (k', v)" by (cases kv)
  from Cons.prems kv have fresh: "k' \<notin> fst ` set kvs" and dist: "distinct (map fst kvs)"
    by auto
  have IH: "lookup (jsonProps kvs) k = json (lookup kvs k)"
    by (rule Cons.IH [OF dist])
  show ?case
  proof (cases "k = k'")
    case True
    with fresh have "lookup (jsonProps kvs) k = Undefined"
      by (simp add: lookup_jsonProps_absent)
    with True kv show ?thesis by (simp add: lookup_def)
  next
    case False
    with kv IH show ?thesis by (simp add: lookup_def)
  qed
qed

lemma mapE_length: "mapE f xs = Inr ys \<Longrightarrow> length ys = length xs"
  by (induction xs arbitrary: ys) (auto split: sum.splits)

lemma mapE_replicate: "f x = Inr y \<Longrightarrow> mapE f (replicate n x) = Inr (replicate n y)"
  by (induction n) auto

lemma mapE_total: "list_all (\<lambda>x. \<exists>y. f x = Inr y) xs \<Longrightarrow> \<exists>ys. mapE f xs = Inr ys"
  by (induction xs) auto

lemma mapDoc_A_object: "isObj doc \<Longrightarrow> \<exists>r. mapDoc_A b doc = Inr r"
  by (cases doc) (simp_all add: isObj_def mapDoc_A_def)

lemma mapDoc_B_object: "isObj doc \<Longrightarrow> \<exists>r. mapDoc_B b doc = Inr r"
  by (cases doc) (simp_all add: isObj_def mapDoc_B_def)

lemma processDocuments_A_objects:
  assumes "list_all isObj ds"
  shows "\<exists>ps. processDocuments_A b (json (Obj [(''documents'', Arr ds)])) = Inr ps \<and>
              length ps = length ds"
proof -
  have "list_all (\<lambda>x. \<exists>y. mapDoc_A b x = Inr y) (jsonElems ds)"
    using jsonElems_objects [OF assms] mapDoc_A_object [of _ b]
    by (simp add: list_all_iff)
  then obtain ps where ps: "mapE (mapDoc_A b) (jsonElems ds) = Inr ps"
    using mapE_total by blast
  then have "length ps = length ds"
    using mapE_length [OF ps] by (simp add: length_jsonElems)
  with ps show ?thesis
    by (simp add: processDocuments_A_def lookup_def)
qed

lemma processDocuments_B_objects:
  assumes "list_all isObj ds"
  shows "\<exists>ps. processDocuments_B b (json (Obj [(''documents'', Arr ds)])) = Inr ps \<and>
              length ps = length ds"
proof -
  have "list_all (\<lambda>x. \<exists>y. mapDoc_B b x = Inr y) (jsonElems ds)"
    using jsonElems_objects [OF assms] mapDoc_B_object [of _ b]
    by (simp add: list_all_iff)
  then obtain ps where ps: "mapE (mapDoc_B b) (jsonElems ds) = Inr ps"
    using mapE_total by blast
  then have "length ps = length ds"
    using mapE_length [OF ps] by (simp add: length_jsonElems)
  with ps show ?thesis
    by (simp add: processDocuments_B_def lookup_def)
qed

lemma GET_A_200:
  assumes "status (fst (GET_A w env c req)) = 200"
  shows "\<exists>ds. fst (GET_A w env c req) = \<lparr>status = 200, body = Obj [(''documents'', Arr ds)]\<rparr> \<and>
              mapE (formatProperty w) (take 500 (database w ''proptrust'' ''listings'')) = Inr ds"
  using assms GET_A_outcome [of w env c req] by auto

lemma GET_B_200:
  assumes "status (fst (GET_B w env c req)) = 200"
  shows "fst (GET_B w env c req) =
           \<lparr>status = 200,
            body = Obj [(''documents'',
              Arr (map docValue (take 500 (database w ''ccube_research'' ''apartment''))))]\<rparr>"
  using assms
  by (auto simp: GET_B_cases catch_response_def split: prod.splits sum.splits option.splits)

lemma GET_not_200:
  "status (fst (GET_A w env c req)) \<noteq> 200 \<Longrightarrow> \<not> ok (fst (GET_A w env c req))"
  "status (fst (GET_B w env c req)) \<noteq> 200 \<Longrightarrow> \<not> ok (fst (GET_B w env c req))"
  using GET_A_outcome [of w env c req] GET_B_outcome [of w env c req]
  by (auto simp: ok_def)

lemma formatProperty_object: "formatProperty w d = Inr f \<Longrightarrow> isObj f"
  by (auto simp: formatProperty_def isObj_def split: sum.splits)

lemma formatted_objects: "mapE (formatProperty w) xs = Inr ds \<Longrightarrow> list_all isObj ds"
  by (induction xs arbitrary: ds) (auto split: sum.splits dest: formatProperty_object)

lemma docValue_objects: "list_all isObj (map docValue ds)"
  by (simp add: list_all_iff isObj_def docValue_def)

lemma GET_A_at_most_500:
  assumes "status (fst (GET_A w env c req)) = 200"
  shows "\<exists>ds ps. body (fst (GET_A w env c req)) = Obj [(''documents'', Arr ds)] \<and>
           length ds \<le> 500 \<and>
           processDocuments_A b (json (body (fst (GET_A w env c req)))) = Inr ps \<and>
           length ps = length ds"
proof -
  from GET_A_200 [OF assms] obtain ds where
    r: "fst (GET_A w env c req) = \<lparr>status = 200, body = Obj [(''documents'', Arr ds)]\<rparr>" and
    ds: "mapE (formatProperty w) (take 500 (database w ''proptrust'' ''listings'')) = Inr ds"
    by blast
  have "length ds = length (take 500 (database w ''proptrust'' ''listings''))"
    by (rule mapE_length [OF ds])
  then have len: "length ds \<le> 500" by simp
  from processDocuments_A_objects [OF formatted_objects [OF ds], of b] obtain ps where
    "processDocuments_A b (json (Obj [(''documents'', Arr ds)])) = Inr ps" "length ps = length ds"
    by blast
  with r len show ?thesis by simp
qed

lemma GET_B_at_most_500:
  assumes "status (fst (GET_B w env c req)) = 200"
  shows "\<exists>ds ps. body (fst (GET_B w env c req)) = Obj [(''documents'', Arr ds)] \<and>
           length ds \<le> 500 \<and>
           processDocuments_B b (json (body (fst (GET_B w env c req)))) = Inr ps \<and>
           length ps = length ds"
  using processDocuments_B_objects [OF docValue_objects,
      of b "take 500 (database w ''ccube_research'' ''apartment'')"]
  by (simp add: GET_B_200 [OF assms])

lemma fetch_A_at_most_500:
  assumes "length (properties s) \<le> 500"
  shows "length (properties (fetchProperties_A b (Resolved (fst (GET_A w env c req))) s)) \<le> 500"
proof (cases "status (fst (GET_A w env c req)) = 200")
  case True
  from GET_A_at_most_500 [OF True, of b] obtain ds :: "jsval list" and ps where
    "processDocuments_A b (json (body (fst (GET_A w env c req)))) = Inr ps"
    "length ps = length ds" "length ds \<le> 500" by blast
  with True show ?thesis by (simp add: fetchProperties_A_def ok_def)
next
  case False
  with assms GET_not_200(1) [OF False] show ?thesis by (simp add: fetchProperties_A_def)
qed

lemma fetch_B_at_most_500:
  assumes "length (properties s) \<le> 500"
  shows "length (properties (fetchProperties_B b (Resolved (fst (GET_B w env c req))) s)) \<le> 500"
proof (cases "status (fst (GET_B w env c req)) = 200")
  case True
  from GET_B_at_most_500 [OF True, of b] obtain ds :: "jsval list" and ps where
    "processDocuments_B b (json (body (fst (GET_B w env c req)))) = Inr ps"
    "length ps = length ds" "length ds \<le> 500" by blast
  with True show ?thesis by (simp add: fetchProperties_B_def ok_def)
next
  case False
  with assms GET_not_200(2) [OF False] show ?thesis by (simp add: fetchProperties_B_def)
qed



lemma orElse_defined: "d \<noteq> Undefined \<Longrightarrow> orElse v d \<noteq> Undefined"
  by (cases v) (simp_all add: orElse_def)

lemma orElse_absent [simp]: "orElse Undefined d = d"
  by (simp add: orElse_def)

lemma unboxed_absent [simp]: "unboxed parse wrapper Undefined = Fin 0"
  by (simp add: unboxed_def)

lemma mapDoc_A_Obj:
  "mapDoc_A b (Obj kvs) =
     Inr \<lparr>
       A_id = orElse (optProp (lookup kvs ''_id'') ''$oid'') (lookup kvs ''_id''),
       title = orElse (lookup kvs ''title'') (Str ''Unknown''),
       location =
         orElse (optIndex0 (optProp (lookup kvs ''taxonomies'') ''at_biz_dir-location''))
           (Str ''Unknown''),
       price = orElse (optProp (lookup kvs ''fields'') ''starting_bsp'') (Str ''N/A''),
       priceSqft = orElse (optProp (lookup kvs ''fields'') ''price_sqft'') (Str ''N/A''),
       photoUrl = orElse (optProp (lookup kvs ''fields'') ''photo_url'') (Str []),
       listingUrl = orElse (optProp (lookup kvs ''fields'') ''listing_url'') (Str ''#''),
       amenities = orElse (optProp (lookup kvs ''fields'') ''amenities'') (Arr []),
       latitude =
         (if truthy (optProp (lookup kvs ''fields'') ''latitude'')
          then parseFloat b (optProp (lookup kvs ''fields'') ''latitude'') else Fin 0),
       longitude =
         (if truthy (optProp (lookup kvs ''fields'') ''longitude'')
          then parseFloat b (optProp (lookup kvs ''fields'') ''longitude'') else Fin 0),
       address = orElse (optProp (lookup kvs ''fields'') ''address'') (Str ''N/A''),
       category =
         orElse (optIndex0 (optProp (lookup kvs ''taxonomies'') ''at_biz_dir-category''))
           (Str ''Unknown''),
       tags = orElse (optProp (lookup kvs ''taxonomies'') ''at_biz_dir-tags'') (Arr []),
       projectHighlights =
         orElse (optProp (lookup kvs ''fields'') ''project_highlights'') (Str ''N/A''),
       reraId = orElse (optProp (lookup kvs ''fields'') ''rera_id'') (Str ''N/A'')
     \<rparr>"
  by (simp add: mapDoc_A_def)

lemma mapDoc_B_Obj:
  "mapDoc_B b (Obj kvs) =
     Inr \<lparr>
       B_id = orElse (optProp (lookup kvs ''_id'') ''$oid'') (lookup kvs ''_id''),
       Apartment_Name = orElse (lookup kvs ''Apartment Name'') (Str ''Unknown''),
       Location = orElse (lookup kvs ''Location'') (Str ''Unknown''),
       Minimum_Price = unboxed (parseInt b) ''$numberInt'' (lookup kvs ''Minimum Price''),
       Maximum_Price = unboxed (parseInt b) ''$numberInt'' (lookup kvs ''Maximum Price''),
       Per_Sqft_Cost = unboxed (parseFloat b) ''$numberDouble'' (lookup kvs ''Per Sqft Cost''),
       Number_of_Units = unboxed (parseInt b) ''$numberInt'' (lookup kvs ''Number of Units''),
       Total_Area = orElse (lookup kvs ''Total Area'') (Str ''N/A''),
       Project_Status = orElse (lookup kvs ''Project Status'') (Str ''Unknown''),
       Photo_URL = orElse (lookup kvs ''Photo URL'') (Str []),
       Listing_URL = orElse (lookup kvs ''Listing URL'') (Str ''#''),
       Amenities = orElse (lookup kvs ''Amenities'') (Arr []),
       Latitude = unboxed (parseFloat b) ''$numberDouble'' (lookup kvs ''Latitude''),
       Longitude = unboxed (parseFloat b) ''$numberDouble'' (lookup kvs ''Longitude'')
     \<rparr>"
  by (simp add: mapDoc_B_def)

lemma id_defined:
  "v \<noteq> Undefined \<Longrightarrow> orElse (optProp v ''$oid'') v \<noteq> Undefined"
  by (auto simp: orElse_def)

lemma mapDoc_A_defaults:
  "\<exists>r. mapDoc_A b (Obj kvs) = Inr r \<and> complete_A r \<and>
     (lookup kvs ''_id'' \<noteq> Undefined \<longrightarrow> A_id r \<noteq> Undefined) \<and>
     (lookup kvs ''title'' = Undefined \<longrightarrow> title r = Str ''Unknown'') \<and>
     (optIndex0 (optProp (lookup kvs ''taxonomies'') ''at_biz_dir-location'') = Undefined \<longrightarrow>
        location r = Str ''Unknown'') \<and>
     (optProp (lookup kvs ''fields'') ''starting_bsp'' = Undefined \<longrightarrow> price r = Str ''N/A'') \<and>
     (optProp (lookup kvs ''fields'') ''price_sqft'' = Undefined \<longrightarrow> priceSqft r = Str ''N/A'') \<and>
     (optProp (lookup kvs ''fields'') ''photo_url'' = Undefined \<longrightarrow> photoUrl r = Str []) \<and>
     (optProp (lookup kvs ''fields'') ''listing_url'' = Undefined \<longrightarrow> listingUrl r = Str ''#'') \<and>
     (optProp (lookup kvs ''fields'') ''amenities'' = Undefined \<longrightarrow> amenities r = Arr []) \<and>
     (optProp (lookup kvs ''fields'') ''latitude'' = Undefined \<longrightarrow> latitude r = Fin 0) \<and>
     (optProp (lookup kvs ''fields'') ''longitude'' = Undefined \<longrightarrow> longitude r = Fin 0) \<and>
     (optProp (lookup kvs ''fields'') ''address'' = Undefined \<longrightarrow> address r = Str ''N/A'') \<and>
     (optIndex0 (optProp (lookup kvs ''taxonomies'') ''at_biz_dir-category'') = Undefined \<longrightarrow>
        category r = Str ''Unknown'') \<and>
     (optProp (lookup kvs ''taxonomies'') ''at_biz_dir-tags'' = Undefined \<longrightarrow> tags r = Arr []) \<and>
     (optProp (lookup kvs ''fields'') ''project_highlights'' = Undefined \<longrightarrow>
        projectHighlights r = Str ''N/A'') \<and>
     (optProp (lookup kvs ''fields'') ''rera_id'' = Undefined \<longrightarrow> reraId r = Str ''N/A'')"
  by (simp add: mapDoc_A_Obj complete_A_def orElse_defined id_defined)

lemma mapDoc_B_defaults:
  "\<exists>r. mapDoc_B b (Obj kvs) = Inr r \<and> complete_B r \<and>
     (lookup kvs ''_id'' \<noteq> Undefined \<longrightarrow> B_id r \<noteq> Undefined) \<and>
     (lookup kvs ''Apartment Name'' = Undefined \<longrightarrow> Apartment_Name r = Str ''Unknown'') \<and>
     (lookup kvs ''Location'' = Undefined \<longrightarrow> Location r = Str ''Unknown'') \<and>
     (lookup kvs ''Minimum Price'' = Undefined \<longrightarrow> Minimum_Price r = Fin 0) \<and>
     (lookup kvs ''Maximum Price'' = Undefined \<longrightarrow> Maximum_Price r = Fin 0) \<and>
     (lookup kvs ''Per Sqft Cost'' = Undefined \<longrightarrow> Per_Sqft_Cost r = Fin 0) \<and>
     (lookup kvs ''Number of Units'' = Undefined \<longrightarrow> Number_of_Units r = Fin 0) \<and>
     (lookup kvs ''Total Area'' = Undefined \<longrightarrow> Total_Area r = Str ''N/A'') \<and>
     (lookup kvs ''Project Status'' = Undefined \<longrightarrow> Project_Status r = Str ''Unknown'') \<and>
     (lookup kvs ''Photo URL'' = Undefined \<longrightarrow> Photo_URL r = Str []) \<and>
     (lookup kvs ''Listing URL'' = Undefined \<longrightarrow> Listing_URL r = Str ''#'') \<and>
     (lookup kvs ''Amenities'' = Undefined \<longrightarrow> Amenities r = Arr []) \<and>
     (lookup kvs ''Latitude'' = Undefined \<longrightarrow> Latitude r = Fin 0) \<and>
     (lookup kvs ''Longitude'' = Undefined \<longrightarrow> Longitude r = Fin 0)"
  by (simp add: mapDoc_B_Obj complete_B_def orElse_defined id_defined)



lemma lookup_Nil [simp]: "lookup [] k = Undefined"
  by (simp add: lookup_def)

lemma lookup_Cons [simp]: "lookup ((k', v) # kvs) k = (if k = k' then v else lookup kvs k)"
  by (simp add: lookup_def)

lemma lookup_map_of_None: "map_of kvs k = None \<Longrightarrow> lookup kvs k = Undefined"
  by (simp add: lookup_def)

lemma formatProperty_OtherId:
  "raw_id d = OtherId v \<Longrightarrow> formatProperty w d = Inl (Error (serverTypeError w ''toHexString''))"
  by (simp add: formatProperty_def toHexString_def)

lemma formatProperty_ObjectId:
  "raw_id d = ObjectId hex \<Longrightarrow> formatProperty w d = Inr (Obj
      [(''_id'', Obj [(''$oid'', Str hex)]),
       (''title'', lookup (props d) ''title''),
       (''author_id'', lookup (props d) ''author_id''),
       (''meta_description'', lookup (props d) ''meta_description''),
       (''project_description'', lookup (props d) ''project_description''),
       (''fields'', Obj [
          (''price_sqft'', lookup (props d) ''price_sqft''),
          (''latitude'', lookup (props d) ''latitude''),
          (''longitude'', lookup (props d) ''longitude''),
          (''address'', lookup (props d) ''address''),
          (''project_highlights'', lookup (props d) ''project_highlights''),
          (''rera_url'', lookup (props d) ''rera_url''),
          (''rera_id'', lookup (props d) ''rera_id''),
          (''about_project'', lookup (props d) ''about_project''),
          (''nearest_school'', lookup (props d) ''nearest_school''),
          (''nearest_bank'', lookup (props d) ''nearest_bank''),
          (''nearest_hospital'', lookup (props d) ''nearest_hospital''),
          (''starting_bsp'', lookup (props d) ''starting_bsp''),
          (''project_detail'', lookup (props d) ''project_detail''),
          (''listing_url'', lookup (props d) ''listing_url''),
          (''photo_url'', lookup (props d) ''photo_url''),
          (''amenities'', orElse (lookup (props d) ''amenities'') (Arr []))]),
       (''taxonomies'', Obj [
          (''at_biz_dir-category'', orElse (lookup (props d) ''at_biz_dir-category'') (Arr [])),
          (''at_biz_dir-location'', orElse (lookup (props d) ''at_biz_dir-location'') (Arr [])),
          (''at_biz_dir-tags'', orElse (lookup (props d) ''at_biz_dir-tags'') (Arr []))]),
       (''scraped_at'', lookup (props d) ''scraped_at'')])"
  by (simp add: formatProperty_def toHexString_def)

lemma formatted_amenities:
  assumes "raw_id d = ObjectId hex"
  shows "\<exists>f. formatProperty w d = Inr f \<and>
    optProp (optProp f ''fields'') ''amenities'' = orElse (lookup (props d) ''amenities'') (Arr [])"
  by (simp add: formatProperty_ObjectId [OF assms])

lemma served_amenities:
  assumes "raw_id d = ObjectId hex"
  shows "\<exists>f kvs. formatProperty w d = Inr f \<and> json f = Obj kvs \<and>
    optProp (lookup kvs ''fields'') ''amenities'' =
      json (orElse (lookup (props d) ''amenities'') (Arr []))"
proof -
  let ?fields = "[
          (''price_sqft'', lookup (props d) ''price_sqft''),
          (''latitude'', lookup (props d) ''latitude''),
          (''longitude'', lookup (props d) ''longitude''),
          (''address'', lookup (props d) ''address''),
          (''project_highlights'', lookup (props d) ''project_highlights''),
          (''rera_url'', lookup (props d) ''rera_url''),
          (''rera_id'', lookup (props d) ''rera_id''),
          (''about_project'', lookup (props d) ''about_project''),
          (''nearest_school'', lookup (props d) ''nearest_school''),
          (''nearest_bank'', lookup (props d) ''nearest_bank''),
          (''nearest_hospital'', lookup (props d) ''nearest_hospital''),
          (''starting_bsp'', lookup (props d) ''starting_bsp''),
          (''project_detail'', lookup (props d) ''project_detail''),
          (''listing_url'', lookup (props d) ''listing_url''),
          (''photo_url'', lookup (props d) ''photo_url''),
          (''amenities'', orElse (lookup (props d) ''amenities'') (Arr []))]"
  let ?top = "[(''_id'', Obj [(''$oid'', Str hex)]),
       (''title'', lookup (props d) ''title''),
       (''author_id'', lookup (props d) ''author_id''),
       (''meta_description'', lookup (props d) ''meta_description''),
       (''project_description'', lookup (props d) ''project_description''),
       (''fields'', Obj ?fields),
       (''taxonomies'', Obj [
          (''at_biz_dir-category'', orElse (lookup (props d) ''at_biz_dir-category'') (Arr [])),
          (''at_biz_dir-location'', orElse (lookup (props d) ''at_biz_dir-location'') (Arr [])),
          (''at_biz_dir-tags'', orElse (lookup (props d) ''at_biz_dir-tags'') (Arr []))]),
       (''scraped_at'', lookup (props d) ''scraped_at'')]"
  have f: "formatProperty w d = Inr (Obj ?top)"
    by (rule formatProperty_ObjectId [OF assms])
  have j: "json (Obj ?top) = Obj (jsonProps ?top)"
    by (simp del: jsonProps.simps)
  have "lookup (jsonProps ?top) ''fields'' = json (lookup ?top ''fields'')"
    by (rule lookup_jsonProps) simp
  moreover have "lookup ?top ''fields'' = Obj ?fields"
    by simp
  moreover have "lookup (jsonProps ?fields) ''amenities'' = json (lookup ?fields ''amenities'')"
    by (rule lookup_jsonProps) simp
  moreover have "lookup ?fields ''amenities'' = orElse (lookup (props d) ''amenities'') (Arr [])"
    by simp
  ultimately have "optProp (lookup (jsonProps ?top) ''fields'') ''amenities'' =
      json (orElse (lookup (props d) ''amenities'') (Arr []))"
    by (simp del: jsonProps.simps lookup_Cons)
  with f j show ?thesis by blast
qed

lemma amenities_A_of_served:
  assumes "raw_id d = ObjectId hex" "map_of (props d) ''amenities'' = None"
  shows "\<exists>f. formatProperty w d = Inr f \<and>
    optProp (optProp f ''fields'') ''amenities'' = Arr [] \<and>
    (\<exists>r. mapDoc_A b (json f) = Inr r \<and> amenities r = Arr [])"
proof -
  from served_amenities [OF assms(1), of w] obtain f kvs where
    f: "formatProperty w d = Inr f" and kvs: "json f = Obj kvs" and
    a: "optProp (lookup kvs ''fields'') ''amenities'' =
      json (orElse (lookup (props d) ''amenities'') (Arr []))"
    by blast
  from a have "optProp (lookup kvs ''fields'') ''amenities'' = Arr []"
    using lookup_map_of_None [OF assms(2)] by simp
  then have "\<exists>r. mapDoc_A b (json f) = Inr r \<and> amenities r = Arr []"
    by (simp add: kvs mapDoc_A_Obj orElse_def)
  moreover from formatted_amenities [OF assms(1), of w] f
  have "optProp (optProp f ''fields'') ''amenities'' = Arr []"
    using lookup_map_of_None [OF assms(2)] by simp
  ultimately show ?thesis using f by blast
qed

lemma amenities_B_of_served:
  assumes "map_of (props d) ''Amenities'' = None"
  shows "\<exists>r. mapDoc_B b (json (docValue d)) = Inr r \<and> Amenities r = Arr []"
proof -
  from assms have "''Amenities'' \<notin> fst ` set (props d)"
    by (simp add: map_of_eq_None_iff)
  then have "''Amenities'' \<notin> fst ` set ((''_id'', x) # props d)" for x
    by simp
  then have "lookup (jsonProps ((''_id'', x) # props d)) ''Amenities'' = Undefined" for x
    by (rule lookup_jsonProps_absent)
  then show ?thesis
    by (simp add: docValue_def mapDoc_B_Obj del: jsonProps.simps)
qed




section \<open>The empty collection\<close>

lemma GET_A_empty:
  assumes "fst (getMongoClient_A w env c) = Inr client" "connectFails w = None"
    "queryFails w = None" "database w ''proptrust'' ''listings'' = []"
  shows "fst (GET_A w env c req) = \<lparr>status = 200, body = Obj [(''documents'', Arr [])]\<rparr>"
  using assms by (cases "getMongoClient_A w env c") (simp add: GET_A_cases)

lemma GET_B_empty:
  assumes "fst (getMongoClient_B w env c) = Inr client" "connectFails w = None"
    "queryFails w = None" "database w ''ccube_research'' ''apartment'' = []"
  shows "fst (GET_B w env c req) = \<lparr>status = 200, body = Obj [(''documents'', Arr [])]\<rparr>"
  using assms by (cases "getMongoClient_B w env c") (simp add: GET_B_cases)

lemma fetch_A_empty:
  "fetchProperties_A b (Resolved \<lparr>status = 200, body = Obj [(''documents'', Arr [])]\<rparr>) s =
     s\<lparr>properties := [], filteredProperties := [], loading := False, error := None\<rparr>"
  by (simp add: fetchProperties_A_def ok_def processDocuments_A_def)

lemma fetch_B_empty:
  "fetchProperties_B b (Resolved \<lparr>status = 200, body = Obj [(''documents'', Arr [])]\<rparr>) s =
     s\<lparr>properties := [], filteredProperties := [], loading := False, error := None\<rparr>"
  by (simp add: fetchProperties_B_def ok_def processDocuments_B_def)

lemma view_A_empty:
  "render (fetchProperties_A b (Resolved \<lparr>status = 200, body = Obj [(''documents'', Arr [])]\<rparr>) s)
     = EmptyState \<and>
   (\<exists>s'. filterEffect_A b
            (fetchProperties_A b (Resolved \<lparr>status = 200, body = Obj [(''documents'', Arr [])]\<rparr>) s)
          = Inr s' \<and> render s' = EmptyState)"
  by (simp add: fetch_A_empty render_def filterEffect_A_def filterProperties_A_def)

lemma view_B_empty:
  "render (fetchProperties_B b (Resolved \<lparr>status = 200, body = Obj [(''documents'', Arr [])]\<rparr>) s)
     = EmptyState \<and>
   (\<exists>s'. filterEffect_B b
            (fetchProperties_B b (Resolved \<lparr>status = 200, body = Obj [(''documents'', Arr [])]\<rparr>) s)
          = Inr s' \<and> render s' = EmptyState)"
  by (simp add: fetch_B_empty render_def filterEffect_B_def filterProperties_B_def)

text \<open>
  C8.  When the handler obtains its client handle, the connection and the query succeed,
  and the queried collection is empty, the response is status 200 with the body
  \<^verbatim>\<open>{documents: []}\<close>.  On receiving that response, from any state and with any setting of
  the controls, \<^verbatim>\<open>fetchProperties\<close> leaves a view that renders the empty-state message,
  and so does the view after the filter effect has run.  This holds for both handlers and
  both views, also for the view of variant A on the response of variant B.
\<close>

theorem empty_collection_renders_empty_state:
  "((\<exists>client. fst (getMongoClient_A w env c) = Inr client) \<and> connectFails w = None \<and>
    queryFails w = None \<and> database w ''proptrust'' ''listings'' = [] \<longrightarrow>
      fst (GET_A w env c req) = \<lparr>status = 200, body = Obj [(''documents'', Arr [])]\<rparr> \<and>
      render (fetchProperties_A b (Resolved (fst (GET_A w env c req))) sA) = EmptyState \<and>
      (\<exists>s'. filterEffect_A b (fetchProperties_A b (Resolved (fst (GET_A w env c req))) sA) = Inr s' \<and>
            render s' = EmptyState))
   \<and>
   ((\<exists>client. fst (getMongoClient_B w env c) = Inr client) \<and> connectFails w = None \<and>
    queryFails w = None \<and> database w ''ccube_research'' ''apartment'' = [] \<longrightarrow>
      fst (GET_B w env c req) = \<lparr>status = 200, body = Obj [(''documents'', Arr [])]\<rparr> \<and>
      render (fetchProperties_B b (Resolved (fst (GET_B w env c req))) sB) = EmptyState \<and>
      (\<exists>s'. filterEffect_B b (fetchProperties_B b (Resolved (fst (GET_B w env c req))) sB) = Inr s' \<and>
            render s' = EmptyState) \<and>
      render (fetchProperties_A b (Resolved (fst (GET_B w env c req))) sA) = EmptyState \<and>
      (\<exists>s'. filterEffect_A b (fetchProperties_A b (Resolved (fst (GET_B w env c req))) sA) = Inr s' \<and>
            render s' = EmptyState))"
proof (intro conjI impI)
  assume "(\<exists>client. fst (getMongoClient_A w env c) = Inr client) \<and> connectFails w = None \<and>
    queryFails w = None \<and> database w ''proptrust'' ''listings'' = []"
  then have r: "fst (GET_A w env c req) = \<lparr>status = 200, body = Obj [(''documents'', Arr [])]\<rparr>"
    by (elim conjE exE) (rule GET_A_empty)
  show "fst (GET_A w env c req) = \<lparr>status = 200, body = Obj [(''documents'', Arr [])]\<rparr>"
    by (rule r)
  show "render (fetchProperties_A b (Resolved (fst (GET_A w env c req))) sA) = EmptyState"
    using view_A_empty [of b sA] by (simp only: r)
  show "\<exists>s'. filterEffect_A b (fetchProperties_A b (Resolved (fst (GET_A w env c req))) sA) = Inr s' \<and>
            render s' = EmptyState"
    using view_A_empty [of b sA] by (simp only: r)
next
  assume "(\<exists>client. fst (getMongoClient_B w env c) = Inr client) \<and> connectFails w = None \<and>
    queryFails w = None \<and> database w ''ccube_research'' ''apartment'' = []"
  then have r: "fst (GET_B w env c req) = \<lparr>status = 200, body = Obj [(''documents'', Arr [])]\<rparr>"
    by (elim conjE exE) (rule GET_B_empty)
  show "fst (GET_B w env c req) = \<lparr>status = 200, body = Obj [(''documents'', Arr [])]\<rparr>"
    by (rule r)
  show "render (fetchProperties_B b (Resolved (fst (GET_B w env c req))) sB) = EmptyState"
    using view_B_empty [of b sB] by (simp only: r)
  show "\<exists>s'. filterEffect_B b (fetchProperties_B b (Resolved (fst (GET_B w env c req))) sB) = Inr s' \<and>
            render s' = EmptyState"
    using view_B_empty [of b sB] by (simp only: r)
  show "render (fetchProperties_A b (Resolved (fst (GET_B w env c req))) sA) = EmptyState"
    using view_A_empty [of b sA] by (simp only: r)
  show "\<exists>s'. filterEffect_A b (fetchProperties_A b (Resolved (fst (GET_B w env c req))) sA) = Inr s' \<and>
            render s' = EmptyState"
    using view_A_empty [of b sA] by (simp only: r)
qed

text \<open>An empty database behind a healthy driver, seen from the initial state of the view
  and from a view that shows an earlier, non-empty result under a search.\<close>

theorem empty_collection_renders_empty_state_witness:
  "fst (GET_A (healthy []) (Some ''mongodb://db.example/?w=1'') None ()) =
     \<lparr>status = 200, body = Obj [(''documents'', Arr [])]\<rparr> \<and>
   render (fetchProperties_A exampleBuiltins
     (Resolved (fst (GET_A (healthy []) (Some ''mongodb://db.example/?w=1'') None ()))) initialA)
     = EmptyState \<and>
   fst (GET_B (healthy []) (Some ''mongodb://db.example/?w=1'') None ()) =
     \<lparr>status = 200, body = Obj [(''documents'', Arr [])]\<rparr> \<and>
   render (fetchProperties_B exampleBuiltins
     (Resolved (fst (GET_B (healthy []) (Some ''mongodb://db.example/?w=1'') None ())))
     (initialB\<lparr>properties := [plazaB], filteredProperties := [plazaB], loading := False,
               searchTerm := ''plaza''\<rparr>))
     = EmptyState"
proof -
  have a: "\<exists>client. fst (getMongoClient_A (healthy []) (Some ''mongodb://db.example/?w=1'') None)
      = Inr client"
    by (simp add: getMongoClient_A_def uri_A_def healthy_def)
  have b: "\<exists>client. fst (getMongoClient_B (healthy []) (Some ''mongodb://db.example/?w=1'') None)
      = Inr client"
    by (simp add: getMongoClient_B_def healthy_def)
  have w: "connectFails (healthy []) = None" "queryFails (healthy []) = None"
    "database (healthy []) ''proptrust'' ''listings'' = []"
    "database (healthy []) ''ccube_research'' ''apartment'' = []"
    by (simp_all add: healthy_def)
  from empty_collection_renders_empty_state
    [of "healthy []" "Some ''mongodb://db.example/?w=1''" None "()" exampleBuiltins initialA
        "initialB\<lparr>properties := [plazaB], filteredProperties := [plazaB], loading := False,
               searchTerm := ''plaza''\<rparr>"]
    a b w
  show ?thesis by blast
qed

section \<open>Properties of the filter\<close>

lemma filterE_result: "filterE p xs = Inr ys \<Longrightarrow> ys = filter (\<lambda>x. p x = Inr True) xs"
  by (induction xs arbitrary: ys) (auto split: sum.splits if_splits)

lemma filterE_total:
  "list_all (\<lambda>x. \<exists>k. p x = Inr k) xs \<Longrightarrow> filterE p xs = Inr (filter (\<lambda>x. p x = Inr True) xs)"
  by (induction xs) auto

lemma filterE_idem:
  assumes "filterE p xs = Inr ys"
  shows "filterE p ys = Inr ys"
proof -
  have ys: "ys = filter (\<lambda>x. p x = Inr True) xs"
    by (rule filterE_result [OF assms])
  then have "list_all (\<lambda>x. \<exists>k. p x = Inr k) ys"
    by (auto simp: list_all_iff)
  then have "filterE p ys = Inr (filter (\<lambda>x. p x = Inr True) ys)"
    by (rule filterE_total)
  with ys show ?thesis by simp
qed

lemma count_list_filter_le: "count_list (filter P xs) x \<le> count_list xs x"
  by (induction xs) auto

lemma filterE_sublist:
  assumes "filterE p xs = Inr ys"
  shows "subseq ys xs \<and> set ys \<subseteq> set xs \<and> (\<forall>x. count_list ys x \<le> count_list xs x)"
  using filterE_result [OF assms] by (auto simp: count_list_filter_le)

lemma includes_str_iff: "includes_str s t \<longleftrightarrow> (\<exists>before after. s = before @ t @ after)"
proof (induction s)
  case Nil
  show ?case by auto
next
  case (Cons c cs)
  have "(\<exists>before after. c # cs = before @ t @ after) \<longleftrightarrow>
        prefix t (c # cs) \<or> (\<exists>before after. cs = before @ t @ after)"
  proof
    assume "\<exists>before after. c # cs = before @ t @ after"
    then obtain before after where eq: "c # cs = before @ t @ after" by blast
    show "prefix t (c # cs) \<or> (\<exists>before after. cs = before @ t @ after)"
    proof (cases before)
      case Nil
      with eq have "prefix t (c # cs)" by (simp add: prefix_def)
      then show ?thesis ..
    next
      case (Cons x before')
      with eq have "cs = before' @ t @ after" by simp
      then show ?thesis by blast
    qed
  next
    assume "prefix t (c # cs) \<or> (\<exists>before after. cs = before @ t @ after)"
    then show "\<exists>before after. c # cs = before @ t @ after"
    proof
      assume "prefix t (c # cs)"
      then obtain after where "c # cs = t @ after" by (auto simp: prefix_def)
      then have "c # cs = [] @ t @ after" by simp
      then show ?thesis by blast
    next
      assume "\<exists>before after. cs = before @ t @ after"
      then obtain before after where "cs = before @ t @ after" by blast
      then have "c # cs = (c # before) @ t @ after" by simp
      then show ?thesis by blast
    qed
  qed
  with Cons.IH show ?case by simp
qed

lemma fieldIncludes_Str:
  "fieldIncludes b (Str s) term = Inr (contains_ci b s term)"
  by (simp add: fieldIncludes_def lowerOf_def thenE_def contains_ci_def includes_str_iff)

lemma orE_Inr [simp]: "orE (Inr x) n = (if x then Inr True else n)"
  by (simp add: orE_def thenE_def)

lemma thenE_Inr [simp]: "thenE (Inr x) f = f x"
  by (simp add: thenE_def)

lemma isStr_iff: "isStr v \<longleftrightarrow> (\<exists>s. v = Str s)"
  by (cases v) (simp_all add: isStr_def)

lemma isArr_iff: "isArr v \<longleftrightarrow> (\<exists>vs. v = Arr vs)"
  by (cases v) (simp_all add: isArr_def)

lemma isStrArr_isArr: "isStrArr v \<Longrightarrow> isArr v"
  by (cases v) (simp_all add: isStrArr_def isArr_def)

lemma field_contains_Str [simp]: "field_contains b (Str s) term = contains_ci b s term"
  by (simp add: field_contains_def)

lemma num_le_iff: "num_le x y \<longleftrightarrow> ext_le x y"
  by (cases x; cases y) (simp_all add: ext_le_def)

text \<open>Whenever the test of one field returns, the field is a string and the test says
  whether it contains the search term.\<close>

lemma fieldIncludes_sound:
  assumes "fieldIncludes b v term = Inr k"
  shows "k = field_contains b v term"
proof (cases v)
  case (Str s)
  with assms show ?thesis by (simp add: fieldIncludes_Str)
qed (use assms in \<open>simp_all add: fieldIncludes_def lowerOf_def thenE_def\<close>)

lemma orE_sound:
  assumes "orE m n = Inr k" "\<And>x. m = Inr x \<Longrightarrow> x = P" "\<And>y. n = Inr y \<Longrightarrow> y = Q"
  shows "k = (P \<or> Q)"
proof (cases m)
  case (Inl e)
  with assms(1) show ?thesis by (simp add: orE_def thenE_def)
next
  case (Inr x)
  with assms(2) have x: "x = P" by simp
  show ?thesis
  proof (cases P)
    case True
    with Inr x assms(1) show ?thesis by simp
  next
    case False
    with Inr x assms(1) have "n = Inr k" by simp
    with assms(3) False show ?thesis by simp
  qed
qed

lemma search_A_sound:
  assumes "orE (fieldIncludes b x term) (orE (fieldIncludes b y term) (fieldIncludes b z term))
    = Inr k"
  shows "k = (field_contains b x term \<or> field_contains b y term \<or> field_contains b z term)"
proof (rule orE_sound [OF assms])
  fix k1 assume "fieldIncludes b x term = Inr k1"
  then show "k1 = field_contains b x term" by (rule fieldIncludes_sound)
next
  fix k2 assume inner: "orE (fieldIncludes b y term) (fieldIncludes b z term) = Inr k2"
  show "k2 = (field_contains b y term \<or> field_contains b z term)"
    by (rule orE_sound [OF inner]) (erule fieldIncludes_sound)+
qed

lemma thenE_Inr_iff: "thenE m f = Inr k \<longleftrightarrow> (\<exists>x. m = Inr x \<and> f x = Inr k)"
  by (cases m) (simp_all add: thenE_def)

text \<open>Whenever the callback of variant A returns on a record, and the tags of the record are
  an array unless no tag is selected, it returns what the specification says.\<close>

lemma keep_A_sound:
  assumes "keep_A b term cat tag p = Inr k" "tag = ''all'' \<or> isArr (tags p)"
  shows "k = spec_keep_A b term cat tag p"
proof -
  from assms(1) obtain ms mt where
    ms: "orE (fieldIncludes b (title p) term)
           (orE (fieldIncludes b (location p) term) (fieldIncludes b (address p) term)) = Inr ms" and
    mt: "(if tag = ''all'' then Inr True else tagsInclude b (tags p) tag) = Inr mt" and
    k: "k = (ms \<and> (cat = ''all'' \<or> category p = Str cat) \<and> mt)"
    unfolding keep_A_def by (auto simp: thenE_Inr_iff Let_def)
  have s: "ms = (field_contains b (title p) term \<or> field_contains b (location p) term \<or>
      field_contains b (address p) term)"
    by (rule search_A_sound [OF ms])
  have t: "mt = (tag = ''all'' \<or> (\<exists>vs. tags p = Arr vs \<and> Str tag \<in> set vs))"
  proof (cases "tag = ''all''")
    case True
    with mt show ?thesis by simp
  next
    case False
    with assms(2) obtain vs where "tags p = Arr vs" by (auto simp: isArr_iff)
    with False mt show ?thesis by (simp add: tagsInclude_def)
  qed
  from k s t show ?thesis by (simp add: spec_keep_A_def)
qed

lemma keep_B_sound:
  assumes "keep_B b term st rng p = Inr k"
  shows "k = spec_keep_B b term st rng p"
proof -
  from assms obtain ms where
    ms: "orE (fieldIncludes b (Apartment_Name p) term) (fieldIncludes b (Location p) term) = Inr ms" and
    k: "k = (ms \<and> (st = ''all'' \<or> Project_Status p = Str st) \<and>
          num_le (fst rng) (Minimum_Price p) \<and> num_le (Minimum_Price p) (snd rng))"
    unfolding keep_B_def by (auto simp: thenE_Inr_iff Let_def)
  have "ms = (field_contains b (Apartment_Name p) term \<or> field_contains b (Location p) term)"
    by (rule orE_sound [OF ms]) (erule fieldIncludes_sound)+
  with k show ?thesis by (simp add: spec_keep_B_def num_le_iff)
qed

text \<open>On a searchable record the callback returns.\<close>

lemma keep_A_returns: "searchable_A p \<Longrightarrow> \<exists>k. keep_A b term cat tag p = Inr k"
  by (auto simp: searchable_A_def isStr_iff isArr_iff keep_A_def fieldIncludes_Str
      tagsInclude_def Let_def)

lemma keep_B_returns: "searchable_B p \<Longrightarrow> \<exists>k. keep_B b term st rng p = Inr k"
  by (auto simp: searchable_B_def isStr_iff keep_B_def fieldIncludes_Str Let_def)

lemma keep_A_searchable:
  assumes "searchable_A p"
  shows "keep_A b term cat tag p = Inr (spec_keep_A b term cat tag p)"
proof -
  from keep_A_returns [OF assms] obtain k where k: "keep_A b term cat tag p = Inr k" by blast
  from assms have "isArr (tags p)" by (simp add: searchable_A_def)
  with keep_A_sound [OF k] k show ?thesis by simp
qed

lemma keep_B_searchable:
  assumes "searchable_B p"
  shows "keep_B b term st rng p = Inr (spec_keep_B b term st rng p)"
proof -
  from keep_B_returns [OF assms] obtain k where k: "keep_B b term st rng p = Inr k" by blast
  with keep_B_sound [OF k] show ?thesis by simp
qed

lemma filterE_returns_all: "filterE p xs = Inr ys \<Longrightarrow> x \<in> set xs \<Longrightarrow> \<exists>k. p x = Inr k"
  by (induction xs arbitrary: ys) (auto split: sum.splits)

lemma filterE_sound:
  assumes "filterE p xs = Inr ys" "\<And>x k. x \<in> set xs \<Longrightarrow> p x = Inr k \<Longrightarrow> k = P x"
  shows "ys = filter P xs"
proof -
  have "filter (\<lambda>x. p x = Inr True) xs = filter P xs"
  proof (rule filter_cong [OF refl])
    fix x assume x: "x \<in> set xs"
    from filterE_returns_all [OF assms(1) x] obtain k where k: "p x = Inr k" by blast
    with assms(2) [OF x k] show "(p x = Inr True) = P x" by simp
  qed
  with filterE_result [OF assms(1)] show ?thesis by simp
qed

lemma filterProperties_A_sound:
  assumes "filterProperties_A b term cat tag ps = Inr qs"
    "tag = ''all'' \<or> list_all (\<lambda>p. isArr (tags p)) ps"
  shows "qs = filter (spec_keep_A b term cat tag) ps"
proof (rule filterE_sound)
  show "filterE (keep_A b term cat tag) ps = Inr qs"
    using assms(1) by (simp add: filterProperties_A_def)
next
  fix p k assume "p \<in> set ps" "keep_A b term cat tag p = Inr k"
  with assms(2) show "k = spec_keep_A b term cat tag p"
    by (intro keep_A_sound) (auto simp: list_all_iff)
qed

lemma filterProperties_B_sound:
  assumes "filterProperties_B b term st rng ps = Inr qs"
  shows "qs = filter (spec_keep_B b term st rng) ps"
proof (rule filterE_sound)
  show "filterE (keep_B b term st rng) ps = Inr qs"
    using assms by (simp add: filterProperties_B_def)
next
  fix p k assume "keep_B b term st rng p = Inr k"
  then show "k = spec_keep_B b term st rng p" by (rule keep_B_sound)
qed

lemma filterProperties_A_searchable:
  assumes "list_all searchable_A ps"
  shows "filterProperties_A b term cat tag ps = Inr (filter (spec_keep_A b term cat tag) ps)"
proof -
  have "list_all (\<lambda>x. \<exists>k. keep_A b term cat tag x = Inr k) ps"
    using assms keep_A_returns by (auto simp: list_all_iff)
  then have r: "filterProperties_A b term cat tag ps =
      Inr (filter (\<lambda>x. keep_A b term cat tag x = Inr True) ps)"
    unfolding filterProperties_A_def by (rule filterE_total)
  from assms have "list_all (\<lambda>p. isArr (tags p)) ps"
    by (simp add: list_all_iff searchable_A_def)
  with filterProperties_A_sound [OF r] r show ?thesis by simp
qed

lemma filterProperties_B_searchable:
  assumes "list_all searchable_B ps"
  shows "filterProperties_B b term st rng ps = Inr (filter (spec_keep_B b term st rng) ps)"
proof -
  have "list_all (\<lambda>x. \<exists>k. keep_B b term st rng x = Inr k) ps"
    using assms keep_B_returns by (auto simp: list_all_iff)
  then have r: "filterProperties_B b term st rng ps =
      Inr (filter (\<lambda>x. keep_B b term st rng x = Inr True) ps)"
    unfolding filterProperties_B_def by (rule filterE_total)
  with filterProperties_B_sound [OF r] show ?thesis by simp
qed

lemma conforms_A_searchable: "conforms_A p \<Longrightarrow> searchable_A p"
  by (simp add: conforms_A_def searchable_A_def isStrArr_isArr)

lemma conforms_B_searchable: "conforms_B p \<Longrightarrow> searchable_B p"
  by (simp add: conforms_B_def searchable_B_def)

lemma filterProperties_A_conforming:
  assumes "list_all conforms_A ps"
  shows "filterProperties_A b term cat tag ps = Inr (filter (spec_keep_A b term cat tag) ps)"
  using assms conforms_A_searchable
  by (intro filterProperties_A_searchable) (auto simp: list_all_iff)

lemma filterProperties_B_conforming:
  assumes "list_all conforms_B ps"
  shows "filterProperties_B b term st rng ps = Inr (filter (spec_keep_B b term st rng) ps)"
  using assms conforms_B_searchable
  by (intro filterProperties_B_searchable) (auto simp: list_all_iff)

lemma example_filter_A:
  "list_all conforms_A [towerA, mallA] \<and>
   filterProperties_A exampleBuiltins ''TOWER'' ''all'' ''Premium'' [towerA, mallA] = Inr [towerA] \<and>
   filterProperties_A exampleBuiltins ''TOWER'' ''all'' ''Premium'' [towerA] = Inr [towerA]"
  by (simp add: conforms_A_def isStr_def isStrArr_def towerA_def mallA_def
      filterProperties_A_def keep_A_def fieldIncludes_def lowerOf_def tagsInclude_def
      exampleBuiltins_def asciiLower_def)

lemma example_filter_B:
  "list_all conforms_B [plazaB, villaB] \<and>
   filterProperties_B exampleBuiltins ''pl'' ''all'' (Fin 0, Fin 100000000) [plazaB, villaB] =
     Inr [plazaB] \<and>
   filterProperties_B exampleBuiltins ''pl'' ''all'' (Fin 0, Fin 100000000) [plazaB] = Inr [plazaB]"
  by (simp add: conforms_B_def isStr_def isStrArr_def plazaB_def villaB_def
      filterProperties_B_def keep_B_def fieldIncludes_def lowerOf_def
      exampleBuiltins_def asciiLower_def)

text \<open>
  Six records of each variant under a search, a selection and (variant B) a price range.
  Of the records dropped, three fail one criterion only: each is kept as soon as that
  criterion is lifted.
\<close>

lemma example_criteria_A:
  "list_all searchable_A [towerA, officeA, parkA, heightsA, annexA, mallA] \<and>
   filterProperties_A exampleBuiltins ''TOWER'' ''Residential'' ''Premium''
     [towerA, officeA, parkA, heightsA, annexA, mallA] = Inr [towerA, annexA] \<and>
   filterProperties_A exampleBuiltins ''TOWER'' ''all'' ''Premium'' [officeA] = Inr [officeA] \<and>
   filterProperties_A exampleBuiltins ''TOWER'' ''Residential'' ''all'' [parkA] = Inr [parkA] \<and>
   filterProperties_A exampleBuiltins ''lake'' ''Residential'' ''Premium'' [heightsA] = Inr [heightsA]"
  by (simp add: searchable_A_def isStr_def isArr_def towerA_def officeA_def parkA_def
      heightsA_def annexA_def mallA_def
      filterProperties_A_def keep_A_def fieldIncludes_def lowerOf_def tagsInclude_def
      exampleBuiltins_def asciiLower_def)

lemma example_criteria_B:
  "list_all searchable_B [plazaB, placeB, plotB, courtB, gardenB, villaB] \<and>
   filterProperties_B exampleBuiltins ''pl'' ''Ready to Move'' (Fin 0, Fin 100000000)
     [plazaB, placeB, plotB, courtB, gardenB, villaB] = Inr [plazaB, courtB] \<and>
   filterProperties_B exampleBuiltins ''pl'' ''Ready to Move'' (Fin 0, Fin 250000000) [placeB]
     = Inr [placeB] \<and>
   filterProperties_B exampleBuiltins ''pl'' ''all'' (Fin 0, Fin 100000000) [plotB] = Inr [plotB] \<and>
   filterProperties_B exampleBuiltins ''gar'' ''Ready to Move'' (Fin 0, Fin 100000000) [gardenB]
     = Inr [gardenB]"
  by (simp add: searchable_B_def isStr_def plazaB_def placeB_def plotB_def courtB_def
      gardenB_def villaB_def
      filterProperties_B_def keep_B_def fieldIncludes_def lowerOf_def
      exampleBuiltins_def asciiLower_def)

text \<open>
  C5.  With the controls fixed, filtering the result of a filtering gives the same list
  again.  A list of records that conform to the interface is always filtered without an
  exception, so on such lists the filter is idempotent outright.
\<close>

theorem filtering_is_idempotent:
  "(filterProperties_A b term cat tag psA = Inr qsA \<longrightarrow>
      filterProperties_A b term cat tag qsA = Inr qsA) \<and>
   (list_all conforms_A psA \<longrightarrow>
      (\<exists>qs. filterProperties_A b term cat tag psA = Inr qs \<and>
            filterProperties_A b term cat tag qs = Inr qs)) \<and>
   (filterProperties_B b term st rng psB = Inr qsB \<longrightarrow>
      filterProperties_B b term st rng qsB = Inr qsB) \<and>
   (list_all conforms_B psB \<longrightarrow>
      (\<exists>qs. filterProperties_B b term st rng psB = Inr qs \<and>
            filterProperties_B b term st rng qs = Inr qs))"
proof (intro conjI impI)
  assume "filterProperties_A b term cat tag psA = Inr qsA"
  then show "filterProperties_A b term cat tag qsA = Inr qsA"
    unfolding filterProperties_A_def by (rule filterE_idem)
next
  assume "list_all conforms_A psA"
  then have "filterProperties_A b term cat tag psA =
      Inr (filter (spec_keep_A b term cat tag) psA)"
    by (rule filterProperties_A_conforming)
  moreover from this have "filterProperties_A b term cat tag (filter (spec_keep_A b term cat tag) psA) =
      Inr (filter (spec_keep_A b term cat tag) psA)"
    unfolding filterProperties_A_def by (rule filterE_idem)
  ultimately show "\<exists>qs. filterProperties_A b term cat tag psA = Inr qs \<and>
            filterProperties_A b term cat tag qs = Inr qs"
    by blast
next
  assume "filterProperties_B b term st rng psB = Inr qsB"
  then show "filterProperties_B b term st rng qsB = Inr qsB"
    unfolding filterProperties_B_def by (rule filterE_idem)
next
  assume "list_all conforms_B psB"
  then have "filterProperties_B b term st rng psB =
      Inr (filter (spec_keep_B b term st rng) psB)"
    by (rule filterProperties_B_conforming)
  moreover from this have "filterProperties_B b term st rng (filter (spec_keep_B b term st rng) psB) =
      Inr (filter (spec_keep_B b term st rng) psB)"
    unfolding filterProperties_B_def by (rule filterE_idem)
  ultimately show "\<exists>qs. filterProperties_B b term st rng psB = Inr qs \<and>
            filterProperties_B b term st rng qs = Inr qs"
    by blast
qed

theorem filtering_is_idempotent_witness:
  "list_all conforms_A [towerA, mallA] \<and>
   filterProperties_A exampleBuiltins ''TOWER'' ''all'' ''Premium'' [towerA, mallA] = Inr [towerA] \<and>
   filterProperties_A exampleBuiltins ''TOWER'' ''all'' ''Premium'' [towerA] = Inr [towerA] \<and>
   list_all conforms_B [plazaB, villaB] \<and>
   filterProperties_B exampleBuiltins ''pl'' ''all'' (Fin 0, Fin 100000000) [plazaB, villaB]
     = Inr [plazaB] \<and>
   filterProperties_B exampleBuiltins ''pl'' ''all'' (Fin 0, Fin 100000000) [plazaB] = Inr [plazaB]"
proof -
  have a: "list_all conforms_A [towerA, mallA]"
    "filterProperties_A exampleBuiltins ''TOWER'' ''all'' ''Premium'' [towerA, mallA] = Inr [towerA]"
    using example_filter_A by simp_all
  have c: "list_all conforms_B [plazaB, villaB]"
    "filterProperties_B exampleBuiltins ''pl'' ''all'' (Fin 0, Fin 100000000) [plazaB, villaB] =
       Inr [plazaB]"
    using example_filter_B by simp_all
  from filtering_is_idempotent
    [of exampleBuiltins "''TOWER''" "''all''" "''Premium''" "[towerA, mallA]" "[towerA]"
        "''all''" "(Fin 0, Fin 100000000)" "[plazaB, villaB]" "[plazaB]"]
    filtering_is_idempotent
    [of exampleBuiltins "''pl''" "''all''" "''Premium''" "[towerA, mallA]" "[towerA]"
        "''all''" "(Fin 0, Fin 100000000)" "[plazaB, villaB]" "[plazaB]"]
    a c
  show ?thesis by blast
qed




text \<open>
  C10.  Whenever the filter returns, its result is a subsequence of the stored list: the
  records it keeps are records of the input, in the input's order, and none occurs more
  often than in the input.  On records that conform to the interface it always returns.
\<close>

theorem filtered_is_ordered_sublist:
  "(filterProperties_A b term cat tag psA = Inr qsA \<longrightarrow>
      subseq qsA psA \<and> set qsA \<subseteq> set psA \<and> (\<forall>p. count_list qsA p \<le> count_list psA p)) \<and>
   (list_all conforms_A psA \<longrightarrow> (\<exists>qs. filterProperties_A b term cat tag psA = Inr qs)) \<and>
   (filterProperties_B b term st rng psB = Inr qsB \<longrightarrow>
      subseq qsB psB \<and> set qsB \<subseteq> set psB \<and> (\<forall>p. count_list qsB p \<le> count_list psB p)) \<and>
   (list_all conforms_B psB \<longrightarrow> (\<exists>qs. filterProperties_B b term st rng psB = Inr qs))"
proof (intro conjI impI)
  assume "filterProperties_A b term cat tag psA = Inr qsA"
  then have r: "subseq qsA psA \<and> set qsA \<subseteq> set psA \<and> (\<forall>p. count_list qsA p \<le> count_list psA p)"
    unfolding filterProperties_A_def by (rule filterE_sublist)
  from r show "subseq qsA psA" by simp
  from r show "set qsA \<subseteq> set psA" by simp
  from r show "\<forall>p. count_list qsA p \<le> count_list psA p" by simp
next
  assume "list_all conforms_A psA"
  then show "\<exists>qs. filterProperties_A b term cat tag psA = Inr qs"
    using filterProperties_A_conforming by blast
next
  assume "filterProperties_B b term st rng psB = Inr qsB"
  then have r: "subseq qsB psB \<and> set qsB \<subseteq> set psB \<and> (\<forall>p. count_list qsB p \<le> count_list psB p)"
    unfolding filterProperties_B_def by (rule filterE_sublist)
  from r show "subseq qsB psB" by simp
  from r show "set qsB \<subseteq> set psB" by simp
  from r show "\<forall>p. count_list qsB p \<le> count_list psB p" by simp
next
  assume "list_all conforms_B psB"
  then show "\<exists>qs. filterProperties_B b term st rng psB = Inr qs"
    using filterProperties_B_conforming by blast
qed

theorem filtered_is_ordered_sublist_witness:
  "list_all conforms_A [towerA, mallA] \<and>
   filterProperties_A exampleBuiltins ''TOWER'' ''all'' ''Premium'' [towerA, mallA] = Inr [towerA] \<and>
   subseq [towerA] [towerA, mallA] \<and> set [towerA] \<subseteq> set [towerA, mallA] \<and>
   count_list [towerA] towerA \<le> count_list [towerA, mallA] towerA \<and>
   list_all conforms_B [plazaB, villaB] \<and>
   filterProperties_B exampleBuiltins ''pl'' ''all'' (Fin 0, Fin 100000000) [plazaB, villaB]
     = Inr [plazaB] \<and>
   subseq [plazaB] [plazaB, villaB] \<and> set [plazaB] \<subseteq> set [plazaB, villaB] \<and>
   count_list [plazaB] villaB \<le> count_list [plazaB, villaB] villaB"
proof -
  have a: "list_all conforms_A [towerA, mallA]"
    "filterProperties_A exampleBuiltins ''TOWER'' ''all'' ''Premium'' [towerA, mallA] = Inr [towerA]"
    using example_filter_A by simp_all
  have c: "list_all conforms_B [plazaB, villaB]"
    "filterProperties_B exampleBuiltins ''pl'' ''all'' (Fin 0, Fin 100000000) [plazaB, villaB] =
       Inr [plazaB]"
    using example_filter_B by simp_all
  from filtered_is_ordered_sublist
    [of exampleBuiltins "''TOWER''" "''all''" "''Premium''" "[towerA, mallA]" "[towerA]"
        "''all''" "(Fin 0, Fin 100000000)" "[plazaB, villaB]" "[plazaB]"]
  have A: "subseq [towerA] [towerA, mallA] \<and> set [towerA] \<subseteq> set [towerA, mallA] \<and>
      (\<forall>p. count_list [towerA] p \<le> count_list [towerA, mallA] p)"
    using a by blast
  from filtered_is_ordered_sublist
    [of exampleBuiltins "''pl''" "''all''" "''Premium''" "[towerA, mallA]" "[towerA]"
        "''all''" "(Fin 0, Fin 100000000)" "[plazaB, villaB]" "[plazaB]"]
  have B: "subseq [plazaB] [plazaB, villaB] \<and> set [plazaB] \<subseteq> set [plazaB, villaB] \<and>
      (\<forall>p. count_list [plazaB] p \<le> count_list [plazaB, villaB] p)"
    using c by blast
  from A B a c show ?thesis by blast
qed

end
